theory Spec2Isabelle
  imports Main
begin

section \<open>Values decoded from JSON, and the Python operations the tracker applies to them\<close>

text \<open>
  \<^verbatim>\<open>json.loads\<close> and \<^verbatim>\<open>json.load\<close> return Python values: \<^verbatim>\<open>None\<close>, booleans, integers,
  strings, lists and dictionaries. A dictionary is kept as its key/value list, read with
  \<open>map_of\<close>. Python's \<^verbatim>\<open>None\<close> is \<open>JNull\<close>. Numbers are Python's unbounded integers, which
  is what the journal carries in \<^verbatim>\<open>Count\<close>, \<^verbatim>\<open>MarketID\<close> and \<^verbatim>\<open>SystemAddress\<close>; floating
  point literals are outside this development.
\<close>

datatype json =
    JNull
  | JBool bool
  | JInt int
  | JStr string
  | JArr "json list"
  | JObj "(string \<times> json) list"

type_synonym dict = "(string \<times> json) list"

text \<open>The exceptions that the tracker catches or that leave \<^verbatim>\<open>process_logs\<close>.
  \<open>Sqlite3Error\<close> stands for every subclass of \<^verbatim>\<open>sqlite3.Error\<close>, \<open>IOError\<close> for \<^verbatim>\<open>OSError\<close> and
  its subclasses. \<open>UnicodeDecodeError\<close> is what reading a text file raises on bytes that are
  not valid in its encoding, \<open>RecursionError\<close> what the JSON decoder raises on a document
  nested too deep; neither is an \<^verbatim>\<open>IOError\<close> or a \<^verbatim>\<open>JSONDecodeError\<close>.\<close>

datatype py_error =
    KeyError string
  | TypeError
  | AttributeError
  | OverflowError
  | Sqlite3Error
  | IOError
  | JSONDecodeError
  | UnicodeDecodeError
  | RecursionError

text \<open>\<^verbatim>\<open>d[k]\<close>, \<^verbatim>\<open>d.get(k)\<close> and \<^verbatim>\<open>d.get(k, default)\<close> on a dictionary.\<close>

definition subscript :: "dict \<Rightarrow> string \<Rightarrow> py_error + json" where
  "subscript d k = (case map_of d k of None \<Rightarrow> Inl (KeyError k) | Some v \<Rightarrow> Inr v)"

definition get :: "dict \<Rightarrow> string \<Rightarrow> json" where
  "get d k = (case map_of d k of None \<Rightarrow> JNull | Some v \<Rightarrow> v)"

definition get_or :: "dict \<Rightarrow> string \<Rightarrow> json \<Rightarrow> json" where
  "get_or d k dflt = (case map_of d k of None \<Rightarrow> dflt | Some v \<Rightarrow> v)"

text \<open>Truth value of a Python object, and \<^verbatim>\<open>a or b\<close>.\<close>

fun truthy :: "json \<Rightarrow> bool" where
  "truthy JNull = False"
| "truthy (JBool b) = b"
| "truthy (JInt i) = (i \<noteq> 0)"
| "truthy (JStr s) = (s \<noteq> [])"
| "truthy (JArr xs) = (xs \<noteq> [])"
| "truthy (JObj kvs) = (kvs \<noteq> [])"

definition py_or :: "json \<Rightarrow> json \<Rightarrow> json" where
  "py_or a b = (if truthy a then a else b)"

text \<open>
  Python's \<^verbatim>\<open>==\<close> on decoded values. \<^verbatim>\<open>True == 1\<close> and \<^verbatim>\<open>False == 0\<close> hold in Python, at any
  depth of a list, so both sides are compared after booleans are turned into integers.
  Dictionaries are compared as key/value lists: the tracker only ever compares a value with
  itself, with a string literal, or hashes a scalar, and there the comparison is exact.
\<close>

primrec norm :: "json \<Rightarrow> json" where
  "norm JNull = JNull"
| "norm (JBool b) = JInt (if b then 1 else 0)"
| "norm (JInt i) = JInt i"
| "norm (JStr s) = JStr s"
| "norm (JArr xs) = JArr (map norm xs)"
| "norm (JObj kvs) = JObj (map (map_prod id norm) kvs)"

definition py_eq :: "json \<Rightarrow> json \<Rightarrow> bool" where
  "py_eq a b = (norm a = norm b)"

definition py_ne :: "json \<Rightarrow> json \<Rightarrow> bool" where
  "py_ne a b = (\<not> py_eq a b)"

text \<open>Hashing for membership in a Python set: lists and dictionaries are unhashable
  (\<^verbatim>\<open>TypeError\<close>); the result is the key under which equal values meet.\<close>

fun hash_key :: "json \<Rightarrow> py_error + json" where
  "hash_key (JArr xs) = Inl TypeError"
| "hash_key (JObj kvs) = Inl TypeError"
| "hash_key v = Inr (norm v)"

section \<open>The two tables of \<^verbatim>\<open>database.db\<close>\<close>

text \<open>
  What \<^verbatim>\<open>sqlite3\<close> stores for a bound parameter: \<^verbatim>\<open>None\<close> is NULL, an \<^verbatim>\<open>int\<close> (a \<^verbatim>\<open>bool\<close> is
  one) is a 64-bit INTEGER and raises \<^verbatim>\<open>OverflowError\<close> beyond that range, a \<^verbatim>\<open>str\<close> is TEXT,
  and a list or a dictionary cannot be bound (a \<^verbatim>\<open>sqlite3.Error\<close>). Parameters are bound
  from left to right, so the first one that fails decides the exception.
\<close>

datatype sqlval = SNull | SInt int | SText string

fun bind_param :: "json \<Rightarrow> py_error + sqlval" where
  "bind_param JNull = Inr SNull"
| "bind_param (JBool b) = Inr (SInt (if b then 1 else 0))"
| "bind_param (JInt i) =
     (if - (2 ^ 63) \<le> i \<and> i < 2 ^ 63 then Inr (SInt i) else Inl OverflowError)"
| "bind_param (JStr s) = Inr (SText s)"
| "bind_param (JArr xs) = Inl Sqlite3Error"
| "bind_param (JObj kvs) = Inl Sqlite3Error"

fun bind_params :: "json list \<Rightarrow> py_error + sqlval list" where
  "bind_params [] = Inr []"
| "bind_params (v # vs) =
     (case bind_param v of
        Inl e \<Rightarrow> Inl e
      | Inr x \<Rightarrow> (case bind_params vs of Inl e \<Rightarrow> Inl e | Inr xs \<Rightarrow> Inr (x # xs)))"

text \<open>
  SQL's \<open>=\<close> in a WHERE clause: a comparison with NULL is never true. Column affinity
  (SQLite's conversion between TEXT and INTEGER on storing and comparing) is not modelled:
  the table holds each value as it was bound. Statements below that depend on comparing an
  item name or a count say which values they are about.
\<close>

definition sql_eq :: "sqlval \<Rightarrow> sqlval \<Rightarrow> bool" where
  "sql_eq a b = (a \<noteq> SNull \<and> b \<noteq> SNull \<and> a = b)"

text \<open>A row of \<^verbatim>\<open>purchases\<close>. \<open>rowid\<close> is the column \<^verbatim>\<open>id\<close>; \<open>delivered\<close> and \<open>sold\<close> are
  the 0/1 columns.\<close>

record purchase =
  rowid :: nat
  item :: sqlval
  count :: sqlval
  buy_price :: sqlval
  total_cost :: sqlval
  bought_at :: sqlval
  bought_system :: sqlval
  bought_time :: sqlval
  delivered :: bool
  delivered_to :: sqlval
  delivered_time :: sqlval
  sold :: bool
  sold_at :: sqlval
  sold_time :: sqlval

text \<open>The database: the rows of \<^verbatim>\<open>purchases\<close> in the order of their insertion, the counter
  behind AUTOINCREMENT, and the file names in \<^verbatim>\<open>processed_logs\<close> (the wall-clock column
  \<^verbatim>\<open>processed_time\<close> is left out).\<close>

record database =
  purchases :: "purchase list"
  sqlite_sequence :: nat
  processed_logs :: "string list"

text \<open>\<^verbatim>\<open>INSERT INTO purchases (item, count, buy_price, total_cost, bought_at, bought_system,
  bought_time) VALUES (?, ?, ?, ?, ?, ?, ?)\<close>: the other columns take their defaults.\<close>

definition next_rowid :: "database \<Rightarrow> nat" where
  "next_rowid d = Suc (fold max (map rowid (purchases d)) (sqlite_sequence d))"

definition insert_purchase ::
  "sqlval \<Rightarrow> sqlval \<Rightarrow> sqlval \<Rightarrow> sqlval \<Rightarrow> sqlval \<Rightarrow> sqlval \<Rightarrow> sqlval \<Rightarrow> database \<Rightarrow> database" where
  "insert_purchase i c bp tc at sys tm d =
     d\<lparr>purchases := purchases d @
          [\<lparr>rowid = next_rowid d, item = i, count = c, buy_price = bp, total_cost = tc,
            bought_at = at, bought_system = sys, bought_time = tm,
            delivered = False, delivered_to = SNull, delivered_time = SNull,
            sold = False, sold_at = SNull, sold_time = SNull\<rparr>],
        sqlite_sequence := next_rowid d\<rparr>"

text \<open>
  \<^verbatim>\<open>UPDATE purchases SET ... WHERE ... LIMIT 1\<close>: one of the rows the WHERE clause selects is
  updated, none when it selects none. Which one SQLite takes is not fixed by the statement
  (there is no ORDER BY), so the choice is an argument: \<open>choice\<close> picks among the selected
  rows, and every statement below holds for every choice. The engine is taken to accept
  LIMIT on UPDATE (SQLite built with \<^verbatim>\<open>SQLITE_ENABLE_UPDATE_DELETE_LIMIT\<close>); one built without it
  rejects the two statements with a syntax error.
\<close>

definition update_limit_1 ::
  "nat \<Rightarrow> (purchase \<Rightarrow> bool) \<Rightarrow> (purchase \<Rightarrow> purchase) \<Rightarrow> purchase list \<Rightarrow> purchase list" where
  "update_limit_1 choice wh upd ps =
     (let hits = filter (\<lambda>i. wh (ps ! i)) [0..<length ps]
      in if hits = [] then ps
         else (let i = hits ! (choice mod length hits) in ps[i := upd (ps ! i)]))"

text \<open>\<^verbatim>\<open>UPDATE purchases SET ... WHERE ...\<close> without LIMIT: every selected row.\<close>

definition update_all ::
  "(purchase \<Rightarrow> bool) \<Rightarrow> (purchase \<Rightarrow> purchase) \<Rightarrow> purchase list \<Rightarrow> purchase list" where
  "update_all wh upd ps = map (\<lambda>p. if wh p then upd p else p) ps"

definition is_open :: "purchase \<Rightarrow> bool" where
  "is_open p = (\<not> delivered p \<and> \<not> sold p)"

definition set_sold :: "sqlval \<Rightarrow> sqlval \<Rightarrow> purchase \<Rightarrow> purchase" where
  "set_sold at tm p = p\<lparr>sold := True, sold_at := at, sold_time := tm\<rparr>"

definition set_delivered :: "sqlval \<Rightarrow> sqlval \<Rightarrow> purchase \<Rightarrow> purchase" where
  "set_delivered at tm p = p\<lparr>delivered := True, delivered_to := at, delivered_time := tm\<rparr>"

text \<open>The four statements that change rows of \<^verbatim>\<open>purchases\<close>, each on its bound parameters
  in the order the source passes them to \<^verbatim>\<open>execute\<close>.\<close>

fun insert_purchase_row :: "sqlval list \<Rightarrow> database \<Rightarrow> database" where
  "insert_purchase_row [i, c, bp, tc, at, sys, tm] d = insert_purchase i c bp tc at sys tm d"
| "insert_purchase_row _ d = d"

fun mark_sold :: "nat \<Rightarrow> sqlval list \<Rightarrow> database \<Rightarrow> database" where
  "mark_sold choice [at, tm, i, c] d =
     d\<lparr>purchases := update_limit_1 choice
          (\<lambda>p. sql_eq (item p) i \<and> sql_eq (count p) c \<and> \<not> delivered p \<and> \<not> sold p)
          (set_sold at tm) (purchases d)\<rparr>"
| "mark_sold choice _ d = d"

fun mark_delivered :: "nat \<Rightarrow> sqlval list \<Rightarrow> database \<Rightarrow> database" where
  "mark_delivered choice [at, tm, i, c] d =
     d\<lparr>purchases := update_limit_1 choice
          (\<lambda>p. sql_eq (item p) i \<and> sql_eq (count p) c \<and> \<not> delivered p \<and> \<not> sold p)
          (set_delivered at tm) (purchases d)\<rparr>"
| "mark_delivered choice _ d = d"

fun mark_all_delivered :: "sqlval list \<Rightarrow> database \<Rightarrow> database" where
  "mark_all_delivered [at, tm] d =
     d\<lparr>purchases := update_all (\<lambda>p. \<not> delivered p \<and> \<not> sold p) (set_delivered at tm)
          (purchases d)\<rparr>"
| "mark_all_delivered _ d = d"

section \<open>The cargo report\<close>

text \<open>
  \<^verbatim>\<open>parse_cargo_file\<close>: the argument is what \<^verbatim>\<open>open\<close> and \<^verbatim>\<open>json.load\<close> on \<^verbatim>\<open>Cargo.json\<close> give at
  that moment, the decoded value or the exception raised. The \<^verbatim>\<open>except\<close> clause names
  \<^verbatim>\<open>IOError\<close> and \<^verbatim>\<open>JSONDecodeError\<close>; any other exception leaves the function.
\<close>

definition parse_cargo_file :: "py_error + json \<Rightarrow> py_error + json" where
  "parse_cargo_file content =
     (case content of
        Inr cargo_data \<Rightarrow> Inr cargo_data
      | Inl IOError \<Rightarrow> Inr (JObj [(''timestamp'', JStr ''unknown''), (''Inventory'', JArr [])])
      | Inl JSONDecodeError \<Rightarrow>
          Inr (JObj [(''timestamp'', JStr ''unknown''), (''Inventory'', JArr [])])
      | Inl e \<Rightarrow> Inl e)"

text \<open>Iterating over a decoded value: the elements of a list, the keys of a dictionary, the
  characters of a string; anything else is not iterable.\<close>

fun iterate :: "json \<Rightarrow> py_error + json list" where
  "iterate (JArr xs) = Inr xs"
| "iterate (JObj kvs) = Inr (map (\<lambda>kv. JStr (fst kv)) kvs)"
| "iterate (JStr s) = Inr (map (\<lambda>c. JStr [c]) s)"
| "iterate v = Inl TypeError"

text \<open>\<^verbatim>\<open>sum(item.get("Count", 0) for item in inventory)\<close>, element after element: an item
  that is no dictionary has no \<^verbatim>\<open>get\<close>, a count that is no number cannot be added.\<close>

fun sum_counts :: "int \<Rightarrow> json list \<Rightarrow> py_error + int" where
  "sum_counts acc [] = Inr acc"
| "sum_counts acc (entry # inventory) =
     (case entry of
        JObj d \<Rightarrow>
          (case get_or d ''Count'' (JInt 0) of
             JInt n \<Rightarrow> sum_counts (acc + n) inventory
           | JBool b \<Rightarrow> sum_counts (acc + (if b then 1 else 0)) inventory
           | _ \<Rightarrow> Inl TypeError)
      | _ \<Rightarrow> Inl AttributeError)"

definition get_total_cargo_count :: "json \<Rightarrow> py_error + int" where
  "get_total_cargo_count cargo_data =
     (case cargo_data of
        JObj d \<Rightarrow>
          (case iterate (get_or d ''Inventory'' (JArr [])) of
             Inl e \<Rightarrow> Inl e
           | Inr inventory \<Rightarrow> sum_counts 0 inventory)
      | _ \<Rightarrow> Inl AttributeError)"

section \<open>The dispatcher: the body of the loop over events in \<^verbatim>\<open>process_logs\<close>\<close>

text \<open>The dictionary \<^verbatim>\<open>docked_station\<close>.\<close>

record docking =
  StationName :: json
  StarSystem :: json
  SystemAddress :: json
  timestamp :: json

text \<open>
  The variables of \<^verbatim>\<open>process_logs\<close> that live across events and files, with the database
  as the open connection sees it. \<open>clock\<close> is not a variable of the source: it counts the
  events dispatched so far in the run and indexes what the environment holds at that
  moment.
\<close>

record run_state =
  docked_station :: "docking option"
  cargo_count :: "int option"
  db :: database
  clock :: nat

text \<open>\<^verbatim>\<open>if event["event"] == "Docked"\<close>\<close>

definition on_docked :: "dict \<Rightarrow> run_state \<Rightarrow> py_error + run_state" where
  "on_docked event st =
     (let market_id = get event ''MarketID'' in
      if market_id = JNull then Inr st
      else
        (case subscript event ''StationName'' of Inl e \<Rightarrow> Inl e | Inr name \<Rightarrow>
        (case subscript event ''StarSystem'' of Inl e \<Rightarrow> Inl e | Inr sys \<Rightarrow>
        (case subscript event ''SystemAddress'' of Inl e \<Rightarrow> Inl e | Inr addr \<Rightarrow>
        (case subscript event ''timestamp'' of Inl e \<Rightarrow> Inl e | Inr ts \<Rightarrow>
           Inr (st\<lparr>docked_station :=
                  Some \<lparr>StationName = name, StarSystem = sys, SystemAddress = addr,
                        timestamp = ts\<rparr>\<rparr>))))))"

text \<open>\<^verbatim>\<open>elif event["event"] == "MarketBuy"\<close>. The INSERT stands in a \<^verbatim>\<open>try\<close> that catches
  \<^verbatim>\<open>sqlite3.Error\<close> only.\<close>

definition on_market_buy :: "dict \<Rightarrow> run_state \<Rightarrow> py_error + run_state" where
  "on_market_buy event st =
     (let market_id = get event ''MarketID'' in
      case docked_station st of
        None \<Rightarrow> Inr st
      | Some dock \<Rightarrow>
          if py_ne market_id (get event ''MarketID'') then Inr st
          else
            (let item_name =
                   py_or (py_or (get event ''Type_Localised'') (get event ''Type''))
                     (JStr ''Unknown'');
                 count = get_or event ''Count'' (JInt 0);
                 buy_price = get_or event ''BuyPrice'' (JInt 0);
                 total_cost = get_or event ''TotalCost'' (JInt 0)
             in case subscript event ''timestamp'' of
                  Inl e \<Rightarrow> Inl e
                | Inr ts \<Rightarrow>
                    (case bind_params [item_name, count, buy_price, total_cost,
                                       StationName dock, StarSystem dock, ts] of
                       Inl Sqlite3Error \<Rightarrow> Inr st
                     | Inl e \<Rightarrow> Inl e
                     | Inr row \<Rightarrow> Inr (st\<lparr>db := insert_purchase_row row (db st)\<rparr>))))"

text \<open>\<^verbatim>\<open>elif event["event"] == "MarketSell"\<close>\<close>

definition on_market_sell :: "nat \<Rightarrow> dict \<Rightarrow> run_state \<Rightarrow> py_error + run_state" where
  "on_market_sell choice event st =
     (let market_id = get event ''MarketID'' in
      case docked_station st of
        None \<Rightarrow> Inr st
      | Some dock \<Rightarrow>
          if py_ne market_id (get event ''MarketID'') then Inr st
          else
            (let item_name = get_or event ''Type'' (JStr ''Unknown'');
                 count = get_or event ''Count'' (JInt 0)
             in case subscript event ''timestamp'' of
                  Inl e \<Rightarrow> Inl e
                | Inr ts \<Rightarrow>
                    (case bind_params [StationName dock, ts, item_name, count] of
                       Inl e \<Rightarrow> Inl e
                     | Inr params \<Rightarrow> Inr (st\<lparr>db := mark_sold choice params (db st)\<rparr>))))"

text \<open>\<^verbatim>\<open>elif event["event"] == "CargoDepot" and event.get("UpdateType") == "Deliver"\<close>\<close>

definition on_cargo_depot :: "nat \<Rightarrow> dict \<Rightarrow> run_state \<Rightarrow> py_error + run_state" where
  "on_cargo_depot choice event st =
     (let market_id = get event ''EndMarketID'' in
      case docked_station st of
        None \<Rightarrow> Inr st
      | Some dock \<Rightarrow>
          if py_ne market_id (get event ''EndMarketID'') then Inr st
          else
            (let item_name =
                   py_or (py_or (get event ''CargoType_Localised'') (get event ''CargoType''))
                     (JStr ''Unknown'');
                 count = get_or event ''Count'' (JInt 0)
             in case subscript event ''timestamp'' of
                  Inl e \<Rightarrow> Inl e
                | Inr ts \<Rightarrow>
                    (case bind_params [StationName dock, ts, item_name, count] of
                       Inl e \<Rightarrow> Inl e
                     | Inr params \<Rightarrow> Inr (st\<lparr>db := mark_delivered choice params (db st)\<rparr>))))"

text \<open>\<^verbatim>\<open>elif event["event"] == "Cargo"\<close>. \<open>colonized_systems\<close> holds the hash keys of the
  configured addresses; \<open>cargo_file\<close> is what reading \<^verbatim>\<open>Cargo.json\<close> gives now. The inner
  \<^verbatim>\<open>if\<close> is entered with the docking when the outer condition holds; the last line of the
  branch, \<^verbatim>\<open>cargo_count = current_cargo\<close>, is reached on every path that does not raise.\<close>

definition on_cargo ::
  "json list \<Rightarrow> py_error + json \<Rightarrow> dict \<Rightarrow> run_state \<Rightarrow> py_error + run_state" where
  "on_cargo colonized_systems cargo_file event st =
     (case parse_cargo_file cargo_file of
        Inl e \<Rightarrow> Inl e
      | Inr cargo_data \<Rightarrow>
     (case get_total_cargo_count cargo_data of
        Inl e \<Rightarrow> Inl e
      | Inr current_cargo \<Rightarrow>
          (case (if current_cargo = 0
                    \<and> (case cargo_count st of None \<Rightarrow> False | Some n \<Rightarrow> 0 < n)
                 then docked_station st else None) of
             None \<Rightarrow> Inr (st\<lparr>cargo_count := Some current_cargo\<rparr>)
           | Some dock \<Rightarrow>
               (case hash_key (SystemAddress dock) of
                  Inl e \<Rightarrow> Inl e
                | Inr addr \<Rightarrow>
                    if addr \<in> set colonized_systems then
                      (case subscript event ''timestamp'' of
                         Inl e \<Rightarrow> Inl e
                       | Inr ts \<Rightarrow>
                           (case bind_params [StationName dock, ts] of
                              Inl e \<Rightarrow> Inl e
                            | Inr params \<Rightarrow>
                                Inr (st\<lparr>db := mark_all_delivered params (db st),
                                        cargo_count := Some current_cargo\<rparr>)))
                    else Inr (st\<lparr>cargo_count := Some current_cargo\<rparr>)))))"

text \<open>
  One pass through the loop body. The debug line at its head reads \<^verbatim>\<open>event['event']\<close> and
  \<^verbatim>\<open>event['timestamp']\<close> before any branch is taken; a decoded line that is no dictionary
  cannot be subscripted with a string.
\<close>

definition process_event ::
  "json list \<Rightarrow> py_error + json \<Rightarrow> nat \<Rightarrow> run_state \<Rightarrow> json \<Rightarrow> py_error + run_state" where
  "process_event colonized_systems cargo_file choice st ev =
     (case ev of
        JObj event \<Rightarrow>
          (case subscript event ''event'' of Inl e \<Rightarrow> Inl e | Inr kind \<Rightarrow>
          (case subscript event ''timestamp'' of Inl e \<Rightarrow> Inl e | Inr ts \<Rightarrow>
             if py_eq kind (JStr ''Docked'') then on_docked event st
             else if py_eq kind (JStr ''MarketBuy'') then on_market_buy event st
             else if py_eq kind (JStr ''MarketSell'') then on_market_sell choice event st
             else if py_eq kind (JStr ''CargoDepot'')
                     \<and> py_eq (get event ''UpdateType'') (JStr ''Deliver'')
               then on_cargo_depot choice event st
             else if py_eq kind (JStr ''Cargo'')
               then on_cargo colonized_systems cargo_file event st
             else Inr st))
      | _ \<Rightarrow> Inl TypeError)"

section \<open>Files and runs\<close>

text \<open>
  What a run reads from outside the program.
  \<^item> \<open>read_lines\<close>: the lines that \<^verbatim>\<open>for line in f\<close> delivers for a path, and how the reading
    ends: \<open>None\<close> at the end of the file, or the exception that \<^verbatim>\<open>open\<close> or the iteration
    raises (\<open>IOError\<close> when the file cannot be opened or read, \<open>UnicodeDecodeError\<close> on bytes
    that are no text).
  \<^item> \<open>json_loads\<close>: \<^verbatim>\<open>json.loads\<close> applied to a stripped line, the decoded value or the
    exception raised (\<open>JSONDecodeError\<close> on a line that is no JSON document).
  \<^item> \<open>cargo_json\<close>: what \<^verbatim>\<open>open\<close> and \<^verbatim>\<open>json.load\<close> on \<^verbatim>\<open>Cargo.json\<close> give at each moment of the
    run.
  \<^item> \<open>limit_choice\<close>: the row SQLite takes under LIMIT 1 at each moment.
\<close>

record world =
  read_lines :: "string \<Rightarrow> string list \<times> py_error option"
  json_loads :: "string \<Rightarrow> py_error + json"
  cargo_json :: "nat \<Rightarrow> py_error + json"
  limit_choice :: "nat \<Rightarrow> nat"

text \<open>
  The loop over the lines in \<^verbatim>\<open>parse_log_file\<close>: the events appended so far, and the exception
  that left the loop, if any. The inner \<^verbatim>\<open>try\<close> catches \<^verbatim>\<open>JSONDecodeError\<close> only.
\<close>

fun decode_lines ::
  "(string \<Rightarrow> py_error + json) \<Rightarrow> string list \<Rightarrow> json list \<times> py_error option" where
  "decode_lines loads [] = ([], None)"
| "decode_lines loads (line # rest) =
     (case loads line of
        Inr event \<Rightarrow> (case decode_lines loads rest of (events, stop) \<Rightarrow> (event # events, stop))
      | Inl JSONDecodeError \<Rightarrow> decode_lines loads rest
      | Inl e \<Rightarrow> ([], Some e))"

text \<open>
  \<^verbatim>\<open>parse_log_file\<close>. An exception inside the \<^verbatim>\<open>with\<close> block, from the decoding of a line
  delivered or from the reading itself, reaches the outer \<^verbatim>\<open>try\<close>: an \<^verbatim>\<open>IOError\<close> is caught
  there and the events appended so far are returned, any other exception leaves the
  function.
\<close>

definition parse_log_file :: "world \<Rightarrow> string \<Rightarrow> py_error + json list" where
  "parse_log_file w filepath =
     (case read_lines w filepath of
        (ls, read_stop) \<Rightarrow>
          (case decode_lines (json_loads w) ls of
             (events, stop) \<Rightarrow>
               (case (case stop of Some e \<Rightarrow> Some e | None \<Rightarrow> read_stop) of
                  None \<Rightarrow> Inr events
                | Some IOError \<Rightarrow> Inr events
                | Some e \<Rightarrow> Inl e)))"

text \<open>The loop \<^verbatim>\<open>for event in events\<close>: an exception leaves it at once.\<close>

fun process_events ::
  "world \<Rightarrow> json list \<Rightarrow> run_state \<Rightarrow> json list \<Rightarrow> py_error + run_state" where
  "process_events w cs st [] = Inr st"
| "process_events w cs st (event # events) =
     (case process_event cs (cargo_json w (clock st)) (limit_choice w (clock st)) st event of
        Inl e \<Rightarrow> Inl e
      | Inr st' \<Rightarrow> process_events w cs (st'\<lparr>clock := Suc (clock st')\<rparr>) events)"

text \<open>\<^verbatim>\<open>os.path.basename\<close> (POSIX): what follows the last slash.\<close>

definition basename :: "string \<Rightarrow> string" where
  "basename p = rev (takeWhile (\<lambda>c. c \<noteq> CHR ''/'') (rev p))"

text \<open>
  The loop \<^verbatim>\<open>for log_file in log_files\<close>. The result is the exception that ended the run,
  if any, and the database as committed. \<^verbatim>\<open>conn.commit()\<close> is called once per file, after
  the file's name is inserted into \<^verbatim>\<open>processed_logs\<close>; an exception, from \<^verbatim>\<open>parse_log_file\<close>
  or from the loop over the events, leaves \<^verbatim>\<open>process_logs\<close> with the connection uncommitted,
  so what the file wrote so far is lost and the database is the one of the last commit.
\<close>

fun process_files ::
  "world \<Rightarrow> json list \<Rightarrow> run_state \<Rightarrow> string list \<Rightarrow> py_error option \<times> database" where
  "process_files w cs st [] = (None, db st)"
| "process_files w cs st (log_file # log_files) =
     (let filename = basename log_file in
      if filename \<in> set (processed_logs (db st)) then process_files w cs st log_files
      else
        (case parse_log_file w log_file of
           Inl e \<Rightarrow> (Some e, db st)
         | Inr events \<Rightarrow>
             (case process_events w cs st events of
                Inl e \<Rightarrow> (Some e, db st)
              | Inr st' \<Rightarrow>
                  process_files w cs
                    (st'\<lparr>db := (db st')\<lparr>processed_logs := processed_logs (db st') @ [filename]\<rparr>\<rparr>)
                    log_files)))"

text \<open>The head of \<^verbatim>\<open>process_logs\<close>: the set comprehension over
  \<^verbatim>\<open>config["colonized_systems"]\<close>, then \<^verbatim>\<open>config["log_directory"]\<close> joined with a file name.\<close>

fun system_addresses :: "json list \<Rightarrow> py_error + json list" where
  "system_addresses [] = Inr []"
| "system_addresses (sys # rest) =
     (case sys of
        JObj d \<Rightarrow>
          (case subscript d ''SystemAddress'' of
             Inl e \<Rightarrow> Inl e
           | Inr addr \<Rightarrow>
               (case hash_key addr of
                  Inl e \<Rightarrow> Inl e
                | Inr k \<Rightarrow>
                    (case system_addresses rest of Inl e \<Rightarrow> Inl e | Inr ks \<Rightarrow> Inr (k # ks))))
      | _ \<Rightarrow> Inl TypeError)"

definition colonized_systems_of :: "json \<Rightarrow> py_error + json list" where
  "colonized_systems_of config =
     (case config of
        JObj d \<Rightarrow>
          (case subscript d ''colonized_systems'' of
             Inl e \<Rightarrow> Inl e
           | Inr v \<Rightarrow>
               (case iterate v of Inl e \<Rightarrow> Inl e | Inr systems \<Rightarrow> system_addresses systems))
      | _ \<Rightarrow> Inl TypeError)"

definition log_directory_of :: "json \<Rightarrow> py_error + string" where
  "log_directory_of config =
     (case config of
        JObj d \<Rightarrow>
          (case subscript d ''log_directory'' of
             Inl e \<Rightarrow> Inl e
           | Inr (JStr log_dir) \<Rightarrow> Inr log_dir
           | Inr _ \<Rightarrow> Inl TypeError)
      | _ \<Rightarrow> Inl TypeError)"

definition initial_state :: "database \<Rightarrow> run_state" where
  "initial_state d = \<lparr>docked_station = None, cargo_count = None, db = d, clock = 0\<rparr>"

definition process_logs ::
  "world \<Rightarrow> json \<Rightarrow> database \<Rightarrow> string list \<Rightarrow> py_error option \<times> database" where
  "process_logs w config d log_files =
     (case colonized_systems_of config of
        Inl e \<Rightarrow> (Some e, d)
      | Inr colonized_systems \<Rightarrow>
          (case log_directory_of config of
             Inl e \<Rightarrow> (Some e, d)
           | Inr log_dir \<Rightarrow> process_files w colonized_systems (initial_state d) log_files))"

section \<open>Vocabulary of the statements\<close>

text \<open>
  A purchase is open while neither flag is set (\<open>is_open\<close>, with the model above) and
  terminal once one is. \<open>kept ps ps'\<close> relates the rows of \<^verbatim>\<open>purchases\<close> before and after some
  processing: no row is removed, every row keeps its place and its item, and a terminal row
  is the same row afterwards. \<open>exclusive\<close> says that no row is both sold and delivered.
  \<open>db_step\<close> collects what every event preserves.
\<close>

definition terminal :: "purchase \<Rightarrow> bool" where
  "terminal p = (sold p \<or> delivered p)"

definition kept :: "purchase list \<Rightarrow> purchase list \<Rightarrow> bool" where
  "kept ps ps' \<longleftrightarrow>
     length ps \<le> length ps' \<and>
     (\<forall>i<length ps. item (ps' ! i) = item (ps ! i) \<and>
        (sold (ps ! i) \<or> delivered (ps ! i) \<longrightarrow> ps' ! i = ps ! i))"

definition exclusive :: "purchase list \<Rightarrow> bool" where
  "exclusive ps \<longleftrightarrow> (\<forall>p\<in>set ps. \<not> (sold p \<and> delivered p))"

definition db_step :: "database \<Rightarrow> database \<Rightarrow> bool" where
  "db_step d d' \<longleftrightarrow>
     kept (purchases d) (purchases d') \<and>
     (exclusive (purchases d) \<longrightarrow> exclusive (purchases d')) \<and>
     processed_logs d' = processed_logs d"

text \<open>
  The database \<^verbatim>\<open>init_db\<close> creates, and the databases that runs of \<^verbatim>\<open>process_logs\<close> reach
  from it, whatever the files, the configuration and the outcome of each run.
\<close>

definition fresh_db :: database where
  "fresh_db = \<lparr>purchases = [], sqlite_sequence = 0, processed_logs = []\<rparr>"

inductive reachable :: "database \<Rightarrow> bool" where
  fresh: "reachable fresh_db"
| run: "reachable d \<Longrightarrow> process_logs w config d log_files = (e, d') \<Longrightarrow> reachable d'"

text \<open>
  The keys the loop body subscripts with \<^verbatim>\<open>event[...]\<close>, in the order it reaches them: the
  two of the debug line, then the three of the \<^verbatim>\<open>Docked\<close> branch behind its \<^verbatim>\<open>MarketID\<close>
  check.
\<close>

definition required_keys :: "dict \<Rightarrow> string list" where
  "required_keys event =
     [''event'', ''timestamp''] @
     (if map_of event ''event'' = Some (JStr ''Docked'') \<and> get event ''MarketID'' \<noteq> JNull
      then [''StationName'', ''StarSystem'', ''SystemAddress''] else [])"

text \<open>
  The count one inventory entry contributes to the total, and a \<^verbatim>\<open>MarketBuy\<close> record
  that the INSERT accepts at a given docking: it has a timestamp and each of the seven
  parameters can be bound.
\<close>

fun entry_count :: "json \<Rightarrow> int" where
  "entry_count (JObj d) = (case get_or d ''Count'' (JInt 0) of JInt n \<Rightarrow> n | _ \<Rightarrow> 0)"
| "entry_count v = 0"


section \<open>Journal records and states used in the examples\<close>

text \<open>
  Records as the journal writes them, reduced to the fields the tracker reads.
\<close>

definition docked_event :: "int \<Rightarrow> string \<Rightarrow> string \<Rightarrow> int \<Rightarrow> string \<Rightarrow> json" where
  "docked_event market name sys addr ts =
     JObj [(''timestamp'', JStr ts), (''event'', JStr ''Docked''), (''MarketID'', JInt market),
           (''StationName'', JStr name), (''StarSystem'', JStr sys), (''SystemAddress'', JInt addr)]"

definition market_buy_event :: "int \<Rightarrow> string \<Rightarrow> int \<Rightarrow> string \<Rightarrow> json" where
  "market_buy_event market ty n ts =
     JObj [(''timestamp'', JStr ts), (''event'', JStr ''MarketBuy''), (''MarketID'', JInt market),
           (''Type'', JStr ty), (''Count'', JInt n)]"

definition market_sell_event :: "int \<Rightarrow> string \<Rightarrow> int \<Rightarrow> string \<Rightarrow> json" where
  "market_sell_event market ty n ts =
     JObj [(''timestamp'', JStr ts), (''event'', JStr ''MarketSell''), (''MarketID'', JInt market),
           (''Type'', JStr ty), (''Count'', JInt n)]"

definition cargo_depot_event :: "int \<Rightarrow> string \<Rightarrow> int \<Rightarrow> string \<Rightarrow> json" where
  "cargo_depot_event market ty n ts =
     JObj [(''timestamp'', JStr ts), (''event'', JStr ''CargoDepot''),
           (''UpdateType'', JStr ''Deliver''), (''EndMarketID'', JInt market),
           (''CargoType'', JStr ty), (''Count'', JInt n)]"

definition cargo_event :: "string \<Rightarrow> json" where
  "cargo_event ts = JObj [(''timestamp'', JStr ts), (''event'', JStr ''Cargo'')]"

definition cargo_report :: "(string \<times> int) list \<Rightarrow> json" where
  "cargo_report hold =
     JObj [(''timestamp'', JStr ''t''), (''event'', JStr ''Cargo''),
           (''Inventory'', JArr (map (\<lambda>(n, c). JObj [(''Name'', JStr n), (''Count'', JInt c)]) hold))]"

definition docked_without_market :: json where
  "docked_without_market =
     JObj [(''timestamp'', JStr ''t2''), (''event'', JStr ''Docked''),
           (''StationName'', JStr ''B''), (''StarSystem'', JStr ''Col''),
           (''SystemAddress'', JInt 20)]"

definition docked_bare :: json where
  "docked_bare = JObj [(''timestamp'', JStr ''t2''), (''event'', JStr ''Docked'')]"

definition unbindable_buy :: json where
  "unbindable_buy =
     JObj [(''timestamp'', JStr ''t3''), (''event'', JStr ''MarketBuy''), (''MarketID'', JInt 128),
           (''Type'', JArr [JStr ''gold'']), (''Count'', JInt 5)]"

definition localised_buy :: dict where
  "localised_buy =
     [(''timestamp'', JStr ''t2''), (''event'', JStr ''MarketBuy''), (''MarketID'', JInt 128),
      (''Type'', JStr ''gold''), (''Type_Localised'', JStr ''Gold''), (''Count'', JInt 5)]"

definition localised_sell :: dict where
  "localised_sell =
     [(''timestamp'', JStr ''t3''), (''event'', JStr ''MarketSell''), (''MarketID'', JInt 128),
      (''Type'', JStr ''gold''), (''Type_Localised'', JStr ''Gold''), (''Count'', JInt 5)]"

text \<open>
  Rows and run states.
\<close>

definition open_purchase :: "nat \<Rightarrow> string \<Rightarrow> int \<Rightarrow> string \<Rightarrow> string \<Rightarrow> string \<Rightarrow> purchase" where
  "open_purchase n ty c at sys tm =
     \<lparr>rowid = n, item = SText ty, count = SInt c, buy_price = SInt 0, total_cost = SInt 0,
      bought_at = SText at, bought_system = SText sys, bought_time = SText tm,
      delivered = False, delivered_to = SNull, delivered_time = SNull,
      sold = False, sold_at = SNull, sold_time = SNull\<rparr>"

definition docked_at :: "string \<Rightarrow> string \<Rightarrow> int \<Rightarrow> string \<Rightarrow> docking" where
  "docked_at name sys addr ts =
     \<lparr>StationName = JStr name, StarSystem = JStr sys, SystemAddress = JInt addr,
      timestamp = JStr ts\<rparr>"

definition at_station_A :: run_state where
  "at_station_A =
     \<lparr>docked_station = Some (docked_at ''A'' ''Sol'' 10 ''t1''), cargo_count = None,
      db = fresh_db, clock = 1\<rparr>"

definition sold_gold :: purchase where
  "sold_gold = (open_purchase 1 ''gold'' 5 ''A'' ''Sol'' ''t2'')
                  \<lparr>sold := True, sold_at := SText ''A'', sold_time := SText ''t3''\<rparr>"

definition sold_state :: run_state where
  "sold_state =
     \<lparr>docked_station = Some (docked_at ''B'' ''Col'' 20 ''t4''), cargo_count = None,
      db = \<lparr>purchases = [sold_gold, open_purchase 2 ''tea'' 3 ''A'' ''Sol'' ''t2''],
            sqlite_sequence = 2, processed_logs = []\<rparr>,
      clock = 0\<rparr>"

definition sold_state_later :: run_state where
  "sold_state_later =
     \<lparr>docked_station = Some (docked_at ''B'' ''Col'' 20 ''t4''), cargo_count = Some 0,
      db = \<lparr>purchases = [sold_gold,
              (open_purchase 2 ''tea'' 3 ''A'' ''Sol'' ''t2'')
                 \<lparr>delivered := True, delivered_to := SText ''B'', delivered_time := SText ''t7''\<rparr>],
            sqlite_sequence = 2, processed_logs = []\<rparr>,
      clock = 3\<rparr>"

definition loaded_state :: run_state where
  "loaded_state = sold_state\<lparr>cargo_count := Some 10\<rparr>"

definition holding_Gold :: run_state where
  "holding_Gold =
     at_station_A\<lparr>db := fresh_db\<lparr>purchases := [open_purchase 1 ''Gold'' 5 ''A'' ''Sol'' ''t2''],
                                   sqlite_sequence := 1\<rparr>\<rparr>"

definition stocked_db :: database where
  "stocked_db =
     \<lparr>purchases = [open_purchase 1 ''gold'' 5 ''A'' ''Sol'' ''t0''], sqlite_sequence = 1,
      processed_logs = []\<rparr>"

definition nine_gold :: "purchase list" where
  "nine_gold =
     map (\<lambda>(n, c). open_purchase n ''gold'' 5 ''A'' ''Sol'' (''2025-03-01T10:0'' @ [c] @ '':00Z''))
       (zip [1, 2, 3, 4, 5, 6, 7, 8, 9] ''123456789'')"

definition after_first_run :: database where
  "after_first_run =
     \<lparr>purchases = nine_gold, sqlite_sequence = 9,
      processed_logs = [''Journal.01.log'', ''Journal.02.log'']\<rparr>"

text \<open>
  Three environments. \<open>quiet_world\<close> has no readable file. In \<open>unloading_world\<close> the hold
  is reported with ten units at the second event and empty otherwise. \<open>example_world\<close> has
  four journals: one with a docking, one with nine purchases around a truncated line, one
  with a record that has no timestamp, and one with two purchases followed by bytes that
  are no text, on which the reading raises; \<open>example_loads\<close> is \<^verbatim>\<open>json.loads\<close> on their lines.
\<close>

definition quiet_world :: world where
  "quiet_world =
     \<lparr>read_lines = (\<lambda>p. ([], Some IOError)), json_loads = (\<lambda>l. Inl JSONDecodeError),
      cargo_json = (\<lambda>n. Inl IOError), limit_choice = (\<lambda>n. 0)\<rparr>"

definition unloading_world :: world where
  "unloading_world =
     \<lparr>read_lines = (\<lambda>p. ([], Some IOError)), json_loads = (\<lambda>l. Inl JSONDecodeError),
      cargo_json = (\<lambda>n. if n = 1 then Inr (cargo_report [(''tea'', 4), (''gold'', 6)])
                          else Inr (cargo_report [])),
      limit_choice = (\<lambda>n. 0)\<rparr>"

definition docked_line :: string where
  \<open>docked_line = ''{"timestamp":"2025-03-01T09:58:00Z","event":"Docked","MarketID":128,"StationName":"A","StarSystem":"Sol","SystemAddress":10}''\<close>

definition buy_line :: "char \<Rightarrow> string" where
  \<open>buy_line c = ''{"timestamp":"2025-03-01T10:0'' @ [c] @ '':00Z","event":"MarketBuy","MarketID":128,"Type":"gold","Count":5}''\<close>

definition corrupt_line :: string where
  \<open>corrupt_line = ''{"timestamp":"2025-03-01T10:04:30Z","event":"Mark''\<close>

definition no_timestamp_line :: string where
  \<open>no_timestamp_line = ''{"event":"Music","MusicTrack":"Exploration"}''\<close>

definition buy_record :: "char \<Rightarrow> json" where
  "buy_record c = market_buy_event 128 ''gold'' 5 (''2025-03-01T10:0'' @ [c] @ '':00Z'')"

definition example_loads :: "string \<Rightarrow> py_error + json" where
  "example_loads l =
     (case map_of ((docked_line, docked_event 128 ''A'' ''Sol'' 10 ''2025-03-01T09:58:00Z'') #
                   (no_timestamp_line,
                      JObj [(''event'', JStr ''Music''), (''MusicTrack'', JStr ''Exploration'')]) #
                   map (\<lambda>c. (buy_line c, buy_record c)) ''123456789'') l of
        Some event \<Rightarrow> Inr event
      | None \<Rightarrow> Inl JSONDecodeError)"

definition nine_buys :: "string list" where
  "nine_buys = map buy_line ''1234'' @ [corrupt_line] @ map buy_line ''56789''"

definition example_files :: "(string \<times> string list \<times> py_error option) list" where
  "example_files =
     [(''/logs/Journal.01.log'', [docked_line], None),
      (''/logs/Journal.02.log'', nine_buys, None),
      (''/logs/Journal.03.log'',
         [buy_line CHR ''1'', no_timestamp_line, buy_line CHR ''2''], None),
      (''/logs/Journal.04.log'', [buy_line CHR ''1'', buy_line CHR ''2''],
         Some UnicodeDecodeError)]"

definition example_world :: world where
  "example_world =
     \<lparr>read_lines = (\<lambda>p. case map_of example_files p of
                            Some r \<Rightarrow> r
                          | None \<Rightarrow> ([], Some IOError)),
      json_loads = example_loads,
      cargo_json = (\<lambda>n. Inl IOError),
      limit_choice = (\<lambda>n. 0)\<rparr>"

definition example_config :: json where
  "example_config =
     JObj [(''log_directory'', JStr ''/logs''),
           (''colonized_systems'', JArr [JObj [(''SystemAddress'', JInt 20)]])]"

section \<open>Lemmas\<close>

subsection \<open>Comparisons and bound parameters\<close>

lemma py_eq_JStr [simp]: "py_eq v (JStr s) \<longleftrightarrow> v = JStr s"
  by (cases v) (auto simp: py_eq_def)

lemma py_ne_self [simp]: "py_ne v v = False"
  by (simp add: py_ne_def py_eq_def)

lemma bind_params_4:
  "bind_params [a, b, c, d] = Inr xs \<Longrightarrow>
     \<exists>w x y z. xs = [w, x, y, z] \<and> bind_param a = Inr w \<and> bind_param b = Inr x
        \<and> bind_param c = Inr y \<and> bind_param d = Inr z"
  by (auto split: sum.splits)

lemma bind_params_7:
  "bind_params [a, b, c, d, e, f, g] = Inr xs \<Longrightarrow>
     \<exists>a' b' c' d' e' f' g'. xs = [a', b', c', d', e', f', g'] \<and> bind_param a = Inr a'
        \<and> bind_param b = Inr b' \<and> bind_param c = Inr c' \<and> bind_param d = Inr d'
        \<and> bind_param e = Inr e' \<and> bind_param f = Inr f' \<and> bind_param g = Inr g'"
  by (auto split: sum.splits)

subsection \<open>The UPDATE statements\<close>

lemma update_limit_1_cases:
  "update_limit_1 c wh upd ps = ps \<or>
   (\<exists>i<length ps. wh (ps ! i) \<and> update_limit_1 c wh upd ps = ps[i := upd (ps ! i)])"
proof (cases "filter (\<lambda>i. wh (ps ! i)) [0..<length ps] = []")
  case True
  then show ?thesis by (simp add: update_limit_1_def)
next
  case False
  let ?hits = "filter (\<lambda>i. wh (ps ! i)) [0..<length ps]"
  let ?i = "?hits ! (c mod length ?hits)"
  from False have "c mod length ?hits < length ?hits" by simp
  then have "?i \<in> set ?hits" by (rule nth_mem)
  then have "?i < length ps" "wh (ps ! ?i)" by auto
  moreover from False have "update_limit_1 c wh upd ps = ps[?i := upd (ps ! ?i)]"
    by (simp add: update_limit_1_def Let_def)
  ultimately show ?thesis by blast
qed

lemma update_limit_1_hit:
  assumes "j < length ps" and "wh (ps ! j)"
  shows "\<exists>i<length ps. wh (ps ! i) \<and> update_limit_1 c wh upd ps = ps[i := upd (ps ! i)]"
proof -
  let ?hits = "filter (\<lambda>i. wh (ps ! i)) [0..<length ps]"
  from assms have "j \<in> set ?hits" by simp
  then have "0 < length ?hits" by (rule length_pos_if_in_set)
  then have ne: "?hits \<noteq> []" by (rule length_greater_0_conv [THEN iffD1])
  let ?i = "?hits ! (c mod length ?hits)"
  from ne have "c mod length ?hits < length ?hits" by simp
  then have "?i \<in> set ?hits" by (rule nth_mem)
  then have "?i < length ps" "wh (ps ! ?i)" by auto
  moreover from ne have "update_limit_1 c wh upd ps = ps[?i := upd (ps ! ?i)]"
    by (simp add: update_limit_1_def Let_def)
  ultimately show ?thesis by blast
qed

lemma update_limit_1_other:
  assumes "i < length ps" and "\<not> wh (ps ! i)"
  shows "update_limit_1 c wh upd ps ! i = ps ! i"
  using update_limit_1_cases [of c wh upd ps] assms
  by (auto simp: nth_list_update)

lemma update_all_open:
  "update_all (\<lambda>p. \<not> delivered p \<and> \<not> sold p) (set_delivered at tm) ps =
     map (\<lambda>p. if is_open p then set_delivered at tm p else p) ps"
  by (simp add: update_all_def is_open_def)

lemma kept_refl [simp]: "kept ps ps"
  by (simp add: kept_def)

lemma kept_trans: "kept ps ps' \<Longrightarrow> kept ps' ps'' \<Longrightarrow> kept ps ps''"
  unfolding kept_def by (metis (no_types, lifting) le_trans less_le_trans)

lemma kept_update_limit_1:
  assumes "\<And>p. wh p \<Longrightarrow> \<not> sold p \<and> \<not> delivered p" and "\<And>p. item (upd p) = item p"
  shows "kept ps (update_limit_1 c wh upd ps)"
  using update_limit_1_cases [of c wh upd ps] assms
  by (auto simp: kept_def nth_list_update)

lemma kept_update_all:
  assumes "\<And>p. wh p \<Longrightarrow> \<not> sold p \<and> \<not> delivered p" and "\<And>p. item (upd p) = item p"
  shows "kept ps (update_all wh upd ps)"
  using assms by (auto simp: kept_def update_all_def)

lemma exclusive_update_limit_1:
  assumes "\<And>p. wh p \<Longrightarrow> \<not> (sold (upd p) \<and> delivered (upd p))" and "exclusive ps"
  shows "exclusive (update_limit_1 c wh upd ps)"
  using update_limit_1_cases [of c wh upd ps] assms
  by (auto simp: exclusive_def dest!: set_update_subset_insert [THEN subsetD])

lemma exclusive_update_all:
  assumes "\<And>p. wh p \<Longrightarrow> \<not> (sold (upd p) \<and> delivered (upd p))" and "exclusive ps"
  shows "exclusive (update_all wh upd ps)"
  using assms by (auto simp: exclusive_def update_all_def)

subsection \<open>What every event, file and run preserves\<close>

lemma db_step_refl [simp]: "db_step d d"
  by (simp add: db_step_def)

lemma db_step_trans: "db_step d d' \<Longrightarrow> db_step d' d'' \<Longrightarrow> db_step d d''"
  unfolding db_step_def by (auto intro: kept_trans)

lemma db_step_insert: "db_step d (insert_purchase_row row d)"
  by (induction row d rule: insert_purchase_row.induct)
     (auto simp: db_step_def insert_purchase_def kept_def exclusive_def nth_append)

lemma db_step_mark_sold: "db_step d (mark_sold c params d)"
  by (induction c params d rule: mark_sold.induct)
     (auto simp: db_step_def set_sold_def intro!: kept_update_limit_1 exclusive_update_limit_1)

lemma db_step_mark_delivered: "db_step d (mark_delivered c params d)"
  by (induction c params d rule: mark_delivered.induct)
     (auto simp: db_step_def set_delivered_def intro!: kept_update_limit_1 exclusive_update_limit_1)

lemma db_step_mark_all_delivered: "db_step d (mark_all_delivered params d)"
  by (induction params d rule: mark_all_delivered.induct)
     (auto simp: db_step_def set_delivered_def intro!: kept_update_all exclusive_update_all)

lemma on_docked_db: "on_docked ev st = Inr st' \<Longrightarrow> db st' = db st"
  by (auto simp: on_docked_def Let_def split: if_splits sum.splits)

lemma on_market_buy_db: "on_market_buy ev st = Inr st' \<Longrightarrow> db_step (db st) (db st')"
  by (auto simp: on_market_buy_def Let_def db_step_insert
           simp del: bind_params.simps insert_purchase_row.simps
           split: if_splits sum.splits option.splits py_error.splits)

lemma on_market_sell_db: "on_market_sell c ev st = Inr st' \<Longrightarrow> db_step (db st) (db st')"
  by (auto simp: on_market_sell_def Let_def db_step_mark_sold
           simp del: bind_params.simps mark_sold.simps
           split: if_splits sum.splits option.splits)

lemma on_cargo_depot_db: "on_cargo_depot c ev st = Inr st' \<Longrightarrow> db_step (db st) (db st')"
  by (auto simp: on_cargo_depot_def Let_def db_step_mark_delivered
           simp del: bind_params.simps mark_delivered.simps
           split: if_splits sum.splits option.splits)

lemma on_cargo_db: "on_cargo cs cf ev st = Inr st' \<Longrightarrow> db_step (db st) (db st')"
  by (auto simp: on_cargo_def Let_def db_step_mark_all_delivered
           simp del: bind_params.simps mark_all_delivered.simps
           split: if_splits sum.splits option.splits)

lemma process_event_db:
  "process_event cs cf c st ev = Inr st' \<Longrightarrow> db_step (db st) (db st')"
  unfolding process_event_def
  by (auto split: json.splits sum.splits if_splits
           dest: on_docked_db on_market_buy_db on_market_sell_db on_cargo_depot_db on_cargo_db)

lemma process_events_db:
  "process_events w cs st evs = Inr st' \<Longrightarrow> db_step (db st) (db st')"
proof (induction evs arbitrary: st)
  case Nil
  then show ?case by simp
next
  case (Cons ev evs)
  then obtain st1 where
    1: "process_event cs (cargo_json w (clock st)) (limit_choice w (clock st)) st ev = Inr st1"
    and 2: "process_events w cs (st1\<lparr>clock := Suc (clock st1)\<rparr>) evs = Inr st'"
    by (auto split: sum.splits)
  from Cons.IH [OF 2] have "db_step (db st1) (db st')" by simp
  with process_event_db [OF 1] show ?case by (rule db_step_trans)
qed

lemma process_events_processed_logs:
  "process_events w cs st evs = Inr st' \<Longrightarrow> processed_logs (db st') = processed_logs (db st)"
  by (drule process_events_db) (simp add: db_step_def)

lemma process_files_step:
  assumes "basename f \<notin> set (processed_logs (db st))"
  shows "(\<exists>e. process_files w cs st (f # fs) = (Some e, db st)) \<or>
         (\<exists>evs st1. parse_log_file w f = Inr evs \<and> process_events w cs st evs = Inr st1 \<and>
            process_files w cs st (f # fs) =
              process_files w cs
                (st1\<lparr>db := (db st1)\<lparr>processed_logs := processed_logs (db st1) @ [basename f]\<rparr>\<rparr>)
                fs)"
  using assms by (auto simp: Let_def split: sum.splits)

lemma process_files_db:
  "process_files w cs st fs = (e, d') \<Longrightarrow>
     kept (purchases (db st)) (purchases d') \<and>
     (exclusive (purchases (db st)) \<longrightarrow> exclusive (purchases d'))"
proof (induction fs arbitrary: st)
  case Nil
  then show ?case by simp
next
  case (Cons f fs)
  show ?case
  proof (cases "basename f \<in> set (processed_logs (db st))")
    case True
    with Cons show ?thesis by simp
  next
    case False
    from process_files_step [OF False, of w cs fs] show ?thesis
    proof (elim disjE exE conjE)
      fix err assume "process_files w cs st (f # fs) = (Some err, db st)"
      with Cons.prems show ?thesis by simp
    next
      fix evs st1
      assume run: "process_events w cs st evs = Inr st1"
        and step: "process_files w cs st (f # fs) =
              process_files w cs
                (st1\<lparr>db := (db st1)\<lparr>processed_logs := processed_logs (db st1) @ [basename f]\<rparr>\<rparr>)
                fs"
      let ?st2 = "st1\<lparr>db := (db st1)\<lparr>processed_logs := processed_logs (db st1) @ [basename f]\<rparr>\<rparr>"
      from step Cons.prems have "process_files w cs ?st2 fs = (e, d')" by simp
      from Cons.IH [OF this] process_events_db [OF run] show ?thesis
        by (auto simp: db_step_def intro: kept_trans)
    qed
  qed
qed

lemma process_logs_db:
  assumes "process_logs w config d fs = (e, d')"
  shows "kept (purchases d) (purchases d') \<and> (exclusive (purchases d) \<longrightarrow> exclusive (purchases d'))"
proof (cases "colonized_systems_of config")
  case (Inl a)
  with assms show ?thesis by (simp add: process_logs_def)
next
  case cs: (Inr cs)
  show ?thesis
  proof (cases "log_directory_of config")
    case (Inl a)
    with cs assms show ?thesis by (simp add: process_logs_def)
  next
    case (Inr dir)
    with cs assms have "process_files w cs (initial_state d) fs = (e, d')"
      by (simp add: process_logs_def)
    from process_files_db [OF this] show ?thesis by (simp add: initial_state_def)
  qed
qed

lemma reachable_exclusive: "reachable d \<Longrightarrow> exclusive (purchases d)"
proof (induction rule: reachable.induct)
  case fresh
  show ?case by (simp add: fresh_db_def exclusive_def)
next
  case (run d w config log_files e d')
  with process_logs_db [OF run.hyps(2)] show ?case by simp
qed

subsection \<open>The docking context\<close>

lemma on_market_buy_docking:
  "on_market_buy ev st = Inr st' \<Longrightarrow> docked_station st' = docked_station st"
  by (auto simp: on_market_buy_def Let_def
        simp del: bind_params.simps insert_purchase_row.simps
        split: if_splits sum.splits option.splits py_error.splits)

lemma on_market_sell_docking:
  "on_market_sell c ev st = Inr st' \<Longrightarrow> docked_station st' = docked_station st"
  by (auto simp: on_market_sell_def Let_def simp del: bind_params.simps mark_sold.simps
        split: if_splits sum.splits option.splits)

lemma on_cargo_depot_docking:
  "on_cargo_depot c ev st = Inr st' \<Longrightarrow> docked_station st' = docked_station st"
  by (auto simp: on_cargo_depot_def Let_def simp del: bind_params.simps mark_delivered.simps
        split: if_splits sum.splits option.splits)

lemma on_cargo_docking:
  "on_cargo cs cf ev st = Inr st' \<Longrightarrow> docked_station st' = docked_station st"
  by (auto simp: on_cargo_def Let_def simp del: bind_params.simps mark_all_delivered.simps
        split: if_splits sum.splits option.splits)

lemma process_event_keeps_docking:
  assumes "process_event cs cf ch st ev = Inr st'"
    and "\<forall>d. ev = JObj d \<longrightarrow> map_of d ''event'' \<noteq> Some (JStr ''Docked'')"
  shows "docked_station st' = docked_station st"
  using assms unfolding process_event_def subscript_def
  by (auto split: json.splits option.splits if_splits
        dest: on_market_buy_docking on_market_sell_docking on_cargo_depot_docking
          on_cargo_docking)

lemma process_events_keep_docking:
  assumes "process_events w cs st evs = Inr st'"
    and "\<forall>ev\<in>set evs. \<forall>d. ev = JObj d \<longrightarrow> map_of d ''event'' \<noteq> Some (JStr ''Docked'')"
  shows "docked_station st' = docked_station st"
  using assms
proof (induction evs arbitrary: st)
  case Nil
  then show ?case by simp
next
  case (Cons ev evs)
  from Cons.prems(1) obtain st1 where
    1: "process_event cs (cargo_json w (clock st)) (limit_choice w (clock st)) st ev = Inr st1"
    and 2: "process_events w cs (st1\<lparr>clock := Suc (clock st1)\<rparr>) evs = Inr st'"
    by (auto split: sum.splits)
  from Cons.prems(2) have "\<forall>d. ev = JObj d \<longrightarrow> map_of d ''event'' \<noteq> Some (JStr ''Docked'')"
    by simp
  from process_event_keeps_docking [OF 1 this] have "docked_station st1 = docked_station st" .
  moreover from Cons.IH [OF 2] Cons.prems(2)
  have "docked_station st' = docked_station (st1\<lparr>clock := Suc (clock st1)\<rparr>)" by simp
  ultimately show ?case by simp
qed

subsection \<open>The decoder, the loop over events and missing keys\<close>



lemma process_events_append:
  "process_events w cs st (xs @ ys) =
     (case process_events w cs st xs of Inl e \<Rightarrow> Inl e | Inr st' \<Rightarrow> process_events w cs st' ys)"
  by (induction xs arbitrary: st) (auto split: sum.splits)

lemma missing_key_raises:
  assumes "find (\<lambda>k. map_of event k = None) (required_keys event) = Some k"
  shows "process_event cs cf ch st (JObj event) = Inl (KeyError k)"
proof (cases "map_of event ''event''")
  case None
  with assms show ?thesis by (simp add: required_keys_def process_event_def subscript_def)
next
  case kind: (Some kind)
  show ?thesis
  proof (cases "map_of event ''timestamp''")
    case None
    with kind assms show ?thesis
      by (simp add: required_keys_def process_event_def subscript_def)
  next
    case ts: (Some ts)
    with kind assms have docked: "kind = JStr ''Docked''" "get event ''MarketID'' \<noteq> JNull"
      by (auto simp: required_keys_def split: if_splits)
    with kind ts assms show ?thesis
      by (auto simp: required_keys_def process_event_def on_docked_def subscript_def
            split: if_splits option.splits)
  qed
qed

subsection \<open>The cargo total\<close>

lemma sum_counts_well_formed:
  assumes "\<forall>entry\<in>set inventory. \<exists>d n. entry = JObj d \<and> get_or d ''Count'' (JInt 0) = JInt n"
  shows "sum_counts acc inventory = Inr (acc + sum_list (map entry_count inventory))"
  using assms by (induction inventory arbitrary: acc) auto

lemma total_of_report:
  assumes "get_or report ''Inventory'' (JArr []) = JArr inventory"
    and "\<forall>entry\<in>set inventory. \<exists>d n. entry = JObj d \<and> get_or d ''Count'' (JInt 0) = JInt n"
  shows "get_total_cargo_count (JObj report) = Inr (sum_list (map entry_count inventory))"
  using assms by (simp add: get_total_cargo_count_def sum_counts_well_formed)

subsection \<open>Purchases and sales\<close>

lemma on_market_sell_cases:
  assumes "on_market_sell c sell st = Inr st'"
  shows "st' = st \<or>
         (\<exists>(dock::docking) ts params.
            bind_params [StationName dock, ts, get_or sell ''Type'' (JStr ''Unknown''),
                         get_or sell ''Count'' (JInt 0)] = Inr params
            \<and> st' = st\<lparr>db := mark_sold c params (db st)\<rparr>)"
  using assms
  by (fastforce simp: on_market_sell_def Let_def simp del: bind_params.simps mark_sold.simps
        split: option.splits if_splits sum.splits)

lemma on_market_buy_cases:
  assumes "on_market_buy buy st = Inr st'"
  shows "st' = st \<or>
         (\<exists>(dock::docking) ts row.
            bind_params [py_or (py_or (get buy ''Type_Localised'') (get buy ''Type''))
                           (JStr ''Unknown''),
                         get_or buy ''Count'' (JInt 0), get_or buy ''BuyPrice'' (JInt 0),
                         get_or buy ''TotalCost'' (JInt 0), StationName dock, StarSystem dock,
                         ts] = Inr row
            \<and> st' = st\<lparr>db := insert_purchase_row row (db st)\<rparr>)"
  using assms
  by (fastforce simp: on_market_buy_def Let_def
        simp del: bind_params.simps insert_purchase_row.simps
        split: option.splits if_splits sum.splits py_error.splits)

lemma on_market_sell_other_item:
  assumes "on_market_sell c sell st = Inr st'"
    and "i < length (purchases (db st))"
    and "bind_param (get_or sell ''Type'' (JStr ''Unknown'')) \<noteq> Inr (item (purchases (db st) ! i))"
  shows "purchases (db st') ! i = purchases (db st) ! i"
proof (cases "db st' = db st")
  case True
  then show ?thesis by simp
next
  case False
  with on_market_sell_cases [OF assms(1)] obtain dock :: docking and ts params where
    p: "bind_params [StationName dock, ts, get_or sell ''Type'' (JStr ''Unknown''),
                     get_or sell ''Count'' (JInt 0)] = Inr params"
    and st': "st' = st\<lparr>db := mark_sold c params (db st)\<rparr>"
    by auto
  from bind_params_4 [OF p] obtain at tm nm cnt where
    params: "params = [at, tm, nm, cnt]"
    and nm: "bind_param (get_or sell ''Type'' (JStr ''Unknown'')) = Inr nm"
    by blast
  from nm assms(3) have "\<not> sql_eq (item (purchases (db st) ! i)) nm"
    by (auto simp: sql_eq_def)
  with assms(2) show ?thesis
    by (simp add: st' params update_limit_1_other)
qed



subsection \<open>Processed files\<close>

lemma process_files_new:
  assumes "basename f \<notin> set (processed_logs (db st))"
    and "parse_log_file w f = Inr evs"
    and "process_events w cs st evs = Inr st'"
  shows "process_files w cs st (f # fs) =
           process_files w cs
             (st'\<lparr>db := (db st')\<lparr>processed_logs := processed_logs (db st') @ [basename f]\<rparr>\<rparr>) fs"
  using assms by simp

lemma process_files_skip:
  assumes "basename f \<in> set (processed_logs (db st))"
  shows "process_files w cs st (fs1 @ f # fs2) = process_files w cs st (fs1 @ fs2)"
  using assms
proof (induction fs1 arbitrary: st)
  case Nil
  then show ?case by simp
next
  case (Cons g fs1)
  show ?case
  proof (cases "basename g \<in> set (processed_logs (db st))")
    case True
    with Cons show ?thesis by simp
  next
    case False
    show ?thesis
    proof (cases "parse_log_file w g")
      case (Inl e)
      with False show ?thesis by simp
    next
      case evs: (Inr evs)
      show ?thesis
      proof (cases "process_events w cs st evs")
        case (Inl e)
        with False evs show ?thesis by simp
      next
        case (Inr st1)
        let ?st2 = "st1\<lparr>db := (db st1)\<lparr>processed_logs := processed_logs (db st1) @ [basename g]\<rparr>\<rparr>"
        from process_events_processed_logs [OF Inr] Cons.prems
        have "basename f \<in> set (processed_logs (db ?st2))" by simp
        from Cons.IH [OF this] Inr evs False show ?thesis by simp
      qed
    qed
  qed
qed

lemma process_files_marks:
  assumes "process_files w cs st fs = (None, d')"
  shows "set (processed_logs (db st)) \<union> basename ` set fs \<subseteq> set (processed_logs d')"
  using assms
proof (induction fs arbitrary: st)
  case Nil
  then show ?case by simp
next
  case (Cons g fs)
  show ?case
  proof (cases "basename g \<in> set (processed_logs (db st))")
    case True
    with Cons.prems have "process_files w cs st fs = (None, d')" by simp
    from Cons.IH [OF this] True show ?thesis by auto
  next
    case False
    from process_files_step [OF False, of w cs fs] show ?thesis
    proof (elim disjE exE conjE)
      fix err assume "process_files w cs st (g # fs) = (Some err, db st)"
      with Cons.prems show ?thesis by simp
    next
      fix evs st1
      assume run: "process_events w cs st evs = Inr st1"
        and step: "process_files w cs st (g # fs) =
              process_files w cs
                (st1\<lparr>db := (db st1)\<lparr>processed_logs := processed_logs (db st1) @ [basename g]\<rparr>\<rparr>)
                fs"
      let ?st2 = "st1\<lparr>db := (db st1)\<lparr>processed_logs := processed_logs (db st1) @ [basename g]\<rparr>\<rparr>"
      from step Cons.prems have "process_files w cs ?st2 fs = (None, d')" by simp
      from Cons.IH [OF this] process_events_processed_logs [OF run] show ?thesis by auto
    qed
  qed
qed

lemma process_files_all_marked:
  assumes "basename ` set fs \<subseteq> set (processed_logs (db st))"
  shows "process_files w cs st fs = (None, db st)"
  using assms by (induction fs) auto

subsection \<open>Evaluating the examples\<close>

lemmas event_defs = docked_event_def market_buy_event_def market_sell_event_def
  cargo_depot_event_def

lemmas step_defs = process_event_def on_docked_def on_market_buy_def on_market_sell_def
  on_cargo_depot_def on_cargo_def subscript_def get_def get_or_def py_or_def

lemmas db_defs = insert_purchase_def next_rowid_def update_limit_1_def update_all_def
  set_sold_def set_delivered_def sql_eq_def

lemmas cargo_defs = parse_cargo_file_def get_total_cargo_count_def cargo_report_def cargo_event_def

lemmas example_defs = example_world_def example_files_def example_loads_def nine_buys_def
  docked_line_def buy_line_def corrupt_line_def no_timestamp_line_def buy_record_def
  example_config_def

lemmas run_defs = process_logs_def colonized_systems_of_def log_directory_of_def
  parse_log_file_def basename_def initial_state_def fresh_db_def

lemma example_decode_nine:
  "decode_lines example_loads nine_buys = (map buy_record ''123456789'', None)"
  by (simp add: example_defs)

lemma example_parse_nine:
  "parse_log_file example_world ''/logs/Journal.02.log'' = Inr (map buy_record ''123456789'')"
  by (simp add: parse_log_file_def example_world_def example_files_def example_decode_nine)

section \<open>The claims\<close>

subsection \<open>C1: the market of an event against the market of the docking\<close>

text \<open>
  Claim C1: a \<^verbatim>\<open>MarketBuy\<close>, \<^verbatim>\<open>MarketSell\<close> or \<^verbatim>\<open>CargoDepot\<close>-\<^verbatim>\<open>Deliver\<close> event whose market
  identifier differs from the one of the current docking is discarded, and no purchase is
  inserted or transitioned. The source does not do that. Each branch reads
  \<^verbatim>\<open>market_id = event.get("MarketID")\<close> and then tests \<^verbatim>\<open>market_id != event.get("MarketID")\<close>,
  the event's identifier against itself, and \<^verbatim>\<open>docked_station\<close> keeps no market identifier.
  In the first run below the ship docks at market 1 and a purchase at market 2 is
  inserted. In the second, two purchases at market 2 are inserted, a sale at market 3 marks
  the first sold and a delivery at market 4 marks the second delivered, all stamped with
  station A (the UPDATE statements of this run need an SQLite that accepts LIMIT there, the
  INSERT of the first run does not).
\<close>

theorem market_mismatch_not_discarded:
  "process_events quiet_world [] (initial_state fresh_db)
     [docked_event 1 ''A'' ''Sol'' 10 ''t1'',
      market_buy_event 2 ''gold'' 5 ''t2'']
   = Inr \<lparr>docked_station = Some (docked_at ''A'' ''Sol'' 10 ''t1''),
          cargo_count = None,
          db = \<lparr>purchases = [open_purchase 1 ''gold'' 5 ''A'' ''Sol'' ''t2''],
                sqlite_sequence = 1, processed_logs = []\<rparr>,
          clock = 2\<rparr> \<and>
   process_events quiet_world [] (initial_state fresh_db)
     [docked_event 1 ''A'' ''Sol'' 10 ''t1'',
      market_buy_event 2 ''gold'' 5 ''t2'',
      market_buy_event 2 ''tea'' 3 ''t3'',
      market_sell_event 3 ''gold'' 5 ''t4'',
      cargo_depot_event 4 ''tea'' 3 ''t5'']
   = Inr \<lparr>docked_station = Some (docked_at ''A'' ''Sol'' 10 ''t1''),
          cargo_count = None,
          db = \<lparr>purchases =
                  [(open_purchase 1 ''gold'' 5 ''A'' ''Sol'' ''t2'')
                     \<lparr>sold := True, sold_at := SText ''A'', sold_time := SText ''t4''\<rparr>,
                   (open_purchase 2 ''tea'' 3 ''A'' ''Sol'' ''t3'')
                     \<lparr>delivered := True, delivered_to := SText ''A'',
                      delivered_time := SText ''t5''\<rparr>],
                sqlite_sequence = 2, processed_logs = []\<rparr>,
          clock = 5\<rparr>"
  by (simp add: event_defs step_defs db_defs quiet_world_def initial_state_def fresh_db_def
        open_purchase_def docked_at_def)

subsection \<open>C2: the cargo heuristic\<close>

text \<open>
  Claim C2, as amended: on a \<^verbatim>\<open>Cargo\<close> event the new total is the sum of the counts of the
  cargo report, and 0 when \<^verbatim>\<open>Cargo.json\<close> cannot be opened or read (\<^verbatim>\<open>IOError\<close>) or is no JSON
  document (\<^verbatim>\<open>JSONDecodeError\<close>). Exactly when the new total is zero, the previous snapshot
  is a positive number, a docking is active and the docked system's address is among the
  colonized ones, every purchase with \<open>delivered\<close> and \<open>sold\<close> both unset gets
  \<open>delivered\<close> set, \<open>delivered_to\<close> the current station and \<open>delivered_time\<close> the event's
  timestamp; otherwise no purchase changes. In every case the snapshot becomes the new
  total. The event and the report are taken well formed: the event has a timestamp that can
  be bound, the report is a dictionary whose inventory is a list of dictionaries with
  integer counts, and the docking, if any, has a station name that can be bound and a
  hashable system address.
\<close>

theorem cargo_event_heuristic:
  assumes "map_of event ''event'' = Some (JStr ''Cargo'')"
    and "map_of event ''timestamp'' = Some ts"
    and "bind_param ts = Inr tm"
    and "parse_cargo_file cargo_file = Inr (JObj report)"
    and "get_or report ''Inventory'' (JArr []) = JArr inventory"
    and "\<forall>entry\<in>set inventory. \<exists>d n. entry = JObj d \<and> get_or d ''Count'' (JInt 0) = JInt n"
    and "docked_station st = None \<or>
         (\<exists>dock. docked_station st = Some dock \<and> bind_param (StationName dock) = Inr station
             \<and> hash_key (SystemAddress dock) = Inr address)"
    and "new_total = sum_list (map entry_count inventory)"
    and "fires \<longleftrightarrow> new_total = 0 \<and> (\<exists>c. cargo_count st = Some c \<and> 0 < c)
             \<and> docked_station st \<noteq> None \<and> address \<in> set colonized_systems"
  shows "(cargo_file = Inl IOError \<or> cargo_file = Inl JSONDecodeError \<longrightarrow> new_total = 0) \<and>
         process_event colonized_systems cargo_file choice st (JObj event) =
           Inr (st\<lparr>db := (db st)\<lparr>purchases :=
                        (if fires
                         then map (\<lambda>p. if \<not> delivered p \<and> \<not> sold p
                                       then p\<lparr>delivered := True, delivered_to := station,
                                              delivered_time := tm\<rparr>
                                       else p)
                                (purchases (db st))
                         else purchases (db st))\<rparr>,
                   cargo_count := Some new_total\<rparr>)"
proof -
  have missing: "new_total = 0" if "cargo_file = Inl IOError \<or> cargo_file = Inl JSONDecodeError"
  proof -
    from that assms(4)
    have "report = [(''timestamp'', JStr ''unknown''), (''Inventory'', JArr [])]"
      by (auto simp: parse_cargo_file_def)
    with assms(5) have "inventory = []" by (simp add: get_or_def)
    with assms(8) show ?thesis by simp
  qed
  have tot: "get_total_cargo_count (JObj report) = Inr new_total"
    using assms(5,6,8) by (simp add: total_of_report)
  have step: "process_event colonized_systems cargo_file choice st (JObj event) =
      on_cargo colonized_systems cargo_file event st"
    using assms(1,2) by (simp add: process_event_def subscript_def)
  have "on_cargo colonized_systems cargo_file event st =
      Inr (st\<lparr>db := (db st)\<lparr>purchases :=
                        (if fires
                         then map (\<lambda>p. if \<not> delivered p \<and> \<not> sold p
                                       then p\<lparr>delivered := True, delivered_to := station,
                                              delivered_time := tm\<rparr>
                                       else p)
                                (purchases (db st))
                         else purchases (db st))\<rparr>,
                   cargo_count := Some new_total\<rparr>)"
  proof (cases "docked_station st")
    case None
    with assms(4,9) tot show ?thesis
      by (auto simp: on_cargo_def split: option.splits)
  next
    case (Some dock)
    with assms(7) have b: "bind_param (StationName dock) = Inr station"
      and h: "hash_key (SystemAddress dock) = Inr address" by auto
    show ?thesis
    proof (cases fires)
      case True
      with assms(9) Some tot assms(2,3,4) b h show ?thesis
        by (auto simp: on_cargo_def subscript_def update_all_def set_delivered_def)
    next
      case False
      with assms(9) Some tot assms(2,3,4) b h show ?thesis
        by (auto simp: on_cargo_def subscript_def split: option.splits)
    qed
  qed
  with missing step show ?thesis by simp
qed

text \<open>
  The hypotheses hold for a ship docked at B, system address 20, with ten units on record
  and one open purchase. With system 20 colonized, an empty report and a missing
  \<^verbatim>\<open>Cargo.json\<close> both deliver the open purchase at B; with only system 30 colonized the empty
  report changes no purchase; a report of ten units changes none either.
\<close>

theorem cargo_event_heuristic_witness:
  "process_event [JInt 20] (Inr (cargo_report [])) 0 loaded_state (cargo_event ''t7'') =
     Inr (loaded_state
            \<lparr>db := (db loaded_state)
               \<lparr>purchases :=
                  [sold_gold,
                   (open_purchase 2 ''tea'' 3 ''A'' ''Sol'' ''t2'')
                     \<lparr>delivered := True, delivered_to := SText ''B'',
                      delivered_time := SText ''t7''\<rparr>]\<rparr>,
             cargo_count := Some 0\<rparr>) \<and>
   process_event [JInt 20] (Inl IOError) 0 loaded_state (cargo_event ''t7'') =
     Inr (loaded_state
            \<lparr>db := (db loaded_state)
               \<lparr>purchases :=
                  [sold_gold,
                   (open_purchase 2 ''tea'' 3 ''A'' ''Sol'' ''t2'')
                     \<lparr>delivered := True, delivered_to := SText ''B'',
                      delivered_time := SText ''t7''\<rparr>]\<rparr>,
             cargo_count := Some 0\<rparr>) \<and>
   process_event [JInt 30] (Inr (cargo_report [])) 0 loaded_state (cargo_event ''t7'') =
     Inr (loaded_state
            \<lparr>db := (db loaded_state)
               \<lparr>purchases := [sold_gold, open_purchase 2 ''tea'' 3 ''A'' ''Sol'' ''t2'']\<rparr>,
             cargo_count := Some 0\<rparr>) \<and>
   process_event [JInt 20] (Inr (cargo_report [(''tea'', 4), (''gold'', 6)])) 0 loaded_state
       (cargo_event ''t7'') =
     Inr (loaded_state
            \<lparr>db := (db loaded_state)
               \<lparr>purchases := [sold_gold, open_purchase 2 ''tea'' 3 ''A'' ''Sol'' ''t2'']\<rparr>,
             cargo_count := Some 10\<rparr>)"
proof -
  have ev: "map_of [(''timestamp'', JStr ''t7''), (''event'', JStr ''Cargo'')] ''event''
              = Some (JStr ''Cargo'')"
    "map_of [(''timestamp'', JStr ''t7''), (''event'', JStr ''Cargo'')] ''timestamp''
              = Some (JStr ''t7'')"
    "bind_param (JStr ''t7'') = Inr (SText ''t7'')"
    by simp_all
  have dock: "docked_station loaded_state = None \<or>
         (\<exists>dock. docked_station loaded_state = Some dock
             \<and> bind_param (StationName dock) = Inr (SText ''B'')
             \<and> hash_key (SystemAddress dock) = Inr (JInt 20))"
    by (simp add: loaded_state_def sold_state_def docked_at_def)
  have empty: "parse_cargo_file (Inr (cargo_report [])) =
      Inr (JObj [(''timestamp'', JStr ''t''), (''event'', JStr ''Cargo''),
                 (''Inventory'', JArr [])])"
    "get_or [(''timestamp'', JStr ''t''), (''event'', JStr ''Cargo''), (''Inventory'', JArr [])]
       ''Inventory'' (JArr []) = JArr []"
    "\<forall>entry\<in>set []. \<exists>d n. entry = JObj d \<and> get_or d ''Count'' (JInt 0) = JInt n"
    by (simp_all add: parse_cargo_file_def cargo_report_def get_or_def)
  have missing: "parse_cargo_file (Inl IOError) =
      Inr (JObj [(''timestamp'', JStr ''unknown''), (''Inventory'', JArr [])])"
    "get_or [(''timestamp'', JStr ''unknown''), (''Inventory'', JArr [])]
       ''Inventory'' (JArr []) = JArr []"
    "\<forall>entry\<in>set []. \<exists>d n. entry = JObj d \<and> get_or d ''Count'' (JInt 0) = JInt n"
    by (simp_all add: parse_cargo_file_def get_or_def)
  let ?hold = "[JObj [(''Name'', JStr ''tea''), (''Count'', JInt 4)],
               JObj [(''Name'', JStr ''gold''), (''Count'', JInt 6)]]"
  have loaded: "parse_cargo_file (Inr (cargo_report [(''tea'', 4), (''gold'', 6)])) =
      Inr (JObj [(''timestamp'', JStr ''t''), (''event'', JStr ''Cargo''),
                 (''Inventory'', JArr ?hold)])"
    "get_or [(''timestamp'', JStr ''t''), (''event'', JStr ''Cargo''), (''Inventory'', JArr ?hold)]
       ''Inventory'' (JArr []) = JArr ?hold"
    "\<forall>entry\<in>set ?hold. \<exists>d n. entry = JObj d \<and> get_or d ''Count'' (JInt 0) = JInt n"
    by (simp_all add: parse_cargo_file_def cargo_report_def get_or_def)
  have inside: "True \<longleftrightarrow> sum_list (map entry_count []) = 0
             \<and> (\<exists>c. cargo_count loaded_state = Some c \<and> 0 < c)
             \<and> docked_station loaded_state \<noteq> None \<and> JInt 20 \<in> set [JInt 20]"
    by (simp add: loaded_state_def sold_state_def)
  have outside: "False \<longleftrightarrow> sum_list (map entry_count []) = 0
             \<and> (\<exists>c. cargo_count loaded_state = Some c \<and> 0 < c)
             \<and> docked_station loaded_state \<noteq> None \<and> JInt 20 \<in> set [JInt 30]"
    by simp
  have ten: "False \<longleftrightarrow> sum_list (map entry_count ?hold) = 0
             \<and> (\<exists>c. cargo_count loaded_state = Some c \<and> 0 < c)
             \<and> docked_station loaded_state \<noteq> None \<and> JInt 20 \<in> set [JInt 20]"
    by (simp add: get_or_def)
  from cargo_event_heuristic [OF ev empty dock refl inside, of 0]
       cargo_event_heuristic [OF ev missing dock refl inside, of 0]
       cargo_event_heuristic [OF ev empty dock refl outside, of 0]
       cargo_event_heuristic [OF ev loaded dock refl ten, of 0]
  show ?thesis
    by (simp add: cargo_event_def loaded_state_def sold_state_def sold_gold_def
          open_purchase_def get_or_def)
qed

text \<open>
  Claim C2 as stated fails where \<^verbatim>\<open>Cargo.json\<close> holds bytes that are no text, or a document
  nested too deep: the exception is none of the two that \<^verbatim>\<open>parse_cargo_file\<close> catches, so the
  event yields no total and the run ends with it; the snapshot is not set.
\<close>

theorem unreadable_cargo_file_raises:
  "process_event [JInt 20] (Inl UnicodeDecodeError) 0 loaded_state (cargo_event ''t7'')
     = Inl UnicodeDecodeError \<and>
   process_event [JInt 20] (Inl RecursionError) 0 loaded_state (cargo_event ''t7'')
     = Inl RecursionError"
  by (simp add: cargo_event_def process_event_def subscript_def on_cargo_def
        parse_cargo_file_def)

subsection \<open>C3: terminal purchases\<close>

text \<open>
  Claim C3: a purchase that is sold or delivered is left as it is by every later event,
  so by every \<^verbatim>\<open>MarketSell\<close> and \<^verbatim>\<open>CargoDepot\<close> transition and by the cargo heuristic; no
  purchase is ever both sold and delivered. The first part is stated for any sequence of
  events from any state, and for a whole run of \<^verbatim>\<open>process_logs\<close> whatever its outcome; the
  second for every database reachable from the one \<^verbatim>\<open>init_db\<close> creates.
\<close>

theorem terminal_purchases_never_change:
  "(process_events w cs st evs = Inr st' \<longrightarrow>
      length (purchases (db st)) \<le> length (purchases (db st')) \<and>
      (\<forall>i<length (purchases (db st)). terminal (purchases (db st) ! i) \<longrightarrow>
          purchases (db st') ! i = purchases (db st) ! i) \<and>
      ((\<forall>p\<in>set (purchases (db st)). \<not> (sold p \<and> delivered p)) \<longrightarrow>
          (\<forall>p\<in>set (purchases (db st')). \<not> (sold p \<and> delivered p)))) \<and>
   (process_logs w config d log_files = (e, d') \<longrightarrow>
      length (purchases d) \<le> length (purchases d') \<and>
      (\<forall>i<length (purchases d). terminal (purchases d ! i) \<longrightarrow>
          purchases d' ! i = purchases d ! i)) \<and>
   (reachable d \<longrightarrow> (\<forall>p\<in>set (purchases d). \<not> (sold p \<and> delivered p)))"
proof (intro conjI impI)
  assume "process_events w cs st evs = Inr st'"
  from process_events_db [OF this]
  have k: "kept (purchases (db st)) (purchases (db st'))"
    and x: "exclusive (purchases (db st)) \<longrightarrow> exclusive (purchases (db st'))"
    by (simp_all add: db_step_def)
  from k show "length (purchases (db st)) \<le> length (purchases (db st'))"
    by (simp add: kept_def)
  from k show "\<forall>i<length (purchases (db st)). terminal (purchases (db st) ! i) \<longrightarrow>
          purchases (db st') ! i = purchases (db st) ! i"
    by (simp add: kept_def terminal_def)
  assume "\<forall>p\<in>set (purchases (db st)). \<not> (sold p \<and> delivered p)"
  with x show "\<forall>p\<in>set (purchases (db st')). \<not> (sold p \<and> delivered p)"
    by (simp add: exclusive_def)
next
  assume "process_logs w config d log_files = (e, d')"
  from process_logs_db [OF this] have k: "kept (purchases d) (purchases d')" by simp
  from k show "length (purchases d) \<le> length (purchases d')" by (simp add: kept_def)
  from k show "\<forall>i<length (purchases d). terminal (purchases d ! i) \<longrightarrow>
          purchases d' ! i = purchases d ! i"
    by (simp add: kept_def terminal_def)
next
  assume "reachable d"
  then show "\<forall>p\<in>set (purchases d). \<not> (sold p \<and> delivered p)"
    using reachable_exclusive by (simp add: exclusive_def)
qed

text \<open>
  A sold purchase and an open one, then a sale of the sold item and the hold going from
  ten units to none: the sold row is the same afterwards, the open one is delivered.
\<close>

theorem terminal_purchases_never_change_witness:
  "process_events unloading_world [JInt 20] sold_state
     [market_sell_event 1 ''gold'' 5 ''t5'', cargo_event ''t6'', cargo_event ''t7'']
     = Inr sold_state_later \<and>
   terminal (purchases (db sold_state) ! 0) \<and>
   purchases (db sold_state_later) ! 0 = purchases (db sold_state) ! 0 \<and>
   purchases (db sold_state_later) ! 1 \<noteq> purchases (db sold_state) ! 1"
proof -
  have run: "process_events unloading_world [JInt 20] sold_state
     [market_sell_event 1 ''gold'' 5 ''t5'', cargo_event ''t6'', cargo_event ''t7'']
     = Inr sold_state_later"
    by (simp add: event_defs step_defs db_defs cargo_defs unloading_world_def sold_state_def
          sold_state_later_def sold_gold_def open_purchase_def docked_at_def)
  have t: "terminal (purchases (db sold_state) ! 0)"
    by (simp add: terminal_def sold_state_def sold_gold_def)
  have len: "0 < length (purchases (db sold_state))"
    by (simp add: sold_state_def)
  from terminal_purchases_never_change
      [of unloading_world "[JInt 20]" sold_state
          "[market_sell_event 1 ''gold'' 5 ''t5'', cargo_event ''t6'', cargo_event ''t7'']"
          sold_state_later] run
  have "\<forall>i<length (purchases (db sold_state)). terminal (purchases (db sold_state) ! i) \<longrightarrow>
          purchases (db sold_state_later) ! i = purchases (db sold_state) ! i"
    by blast
  with len t have "purchases (db sold_state_later) ! 0 = purchases (db sold_state) ! 0"
    by blast
  moreover have "purchases (db sold_state_later) ! 1 \<noteq> purchases (db sold_state) ! 1"
    by (simp add: sold_state_def sold_state_later_def open_purchase_def)
  ultimately show ?thesis using run t by simp
qed

subsection \<open>C4: a processed file is skipped\<close>

text \<open>
  Claim C4: a file recorded in \<^verbatim>\<open>processed_logs\<close> is skipped by a later run, none of its
  events is applied again, so two runs over the same file apply its events at most once.
  First, a run over a list of files does exactly what it does without a file that is
  already recorded, whatever that file holds by then. Second, after a run that completed,
  all its files are recorded and a second run over them, in any environment, leaves the
  database as it is.
\<close>

theorem processed_file_is_skipped:
  "(basename log_file \<in> set (processed_logs d) \<longrightarrow>
      process_logs w config d (before @ log_file # after) =
        process_logs w config d (before @ after)) \<and>
   (process_logs w config d log_files = (None, d') \<longrightarrow>
      basename ` set log_files \<subseteq> set (processed_logs d') \<and>
      process_logs w' config d' log_files = (None, d'))"
proof (intro conjI impI)
  assume "basename log_file \<in> set (processed_logs d)"
  then have "basename log_file \<in> set (processed_logs (db (initial_state d)))"
    by (simp add: initial_state_def)
  from process_files_skip [OF this]
  show "process_logs w config d (before @ log_file # after) =
        process_logs w config d (before @ after)"
    by (simp add: process_logs_def split: sum.splits)
next
  assume run: "process_logs w config d log_files = (None, d')"
  then obtain cs dir where cfg: "colonized_systems_of config = Inr cs"
    "log_directory_of config = Inr dir"
    and files: "process_files w cs (initial_state d) log_files = (None, d')"
    by (auto simp: process_logs_def split: sum.splits)
  from process_files_marks [OF files]
  show marked: "basename ` set log_files \<subseteq> set (processed_logs d')" by simp
  then have "basename ` set log_files \<subseteq> set (processed_logs (db (initial_state d')))"
    by (simp add: initial_state_def)
  from process_files_all_marked [OF this, of w' cs] cfg
  show "process_logs w' config d' log_files = (None, d')"
    by (simp add: process_logs_def initial_state_def)
qed

text \<open>
  A first run over the journal with the docking and the journal with the nine purchases,
  then a second run over both.
\<close>

theorem processed_file_is_skipped_witness:
  "process_logs example_world example_config fresh_db
       [''/logs/Journal.01.log'', ''/logs/Journal.02.log'']
     = (None, after_first_run) \<and>
   length (purchases after_first_run) = 9 \<and>
   process_logs example_world example_config after_first_run
       [''/logs/Journal.01.log'', ''/logs/Journal.02.log'']
     = (None, after_first_run) \<and>
   process_logs quiet_world example_config after_first_run
       ([''/logs/Journal.03.log''] @ ''/logs/Journal.02.log'' # [])
     = process_logs quiet_world example_config after_first_run ([''/logs/Journal.03.log''] @ [])"
proof -
  let ?f1 = "''/logs/Journal.01.log''" and ?f2 = "''/logs/Journal.02.log''"
  let ?s1 = "\<lparr>docked_station = Some (docked_at ''A'' ''Sol'' 10 ''2025-03-01T09:58:00Z''),
              cargo_count = None, db = fresh_db, clock = 1\<rparr>"
  let ?s1' = "?s1\<lparr>db := (db ?s1)\<lparr>processed_logs := processed_logs (db ?s1) @ [basename ?f1]\<rparr>\<rparr>"
  let ?s2 = "\<lparr>docked_station = Some (docked_at ''A'' ''Sol'' 10 ''2025-03-01T09:58:00Z''),
              cargo_count = None,
              db = \<lparr>purchases = nine_gold, sqlite_sequence = 9,
                    processed_logs = [''Journal.01.log'']\<rparr>,
              clock = 10\<rparr>"
  let ?s2' = "?s2\<lparr>db := (db ?s2)\<lparr>processed_logs := processed_logs (db ?s2) @ [basename ?f2]\<rparr>\<rparr>"
  have cfg: "colonized_systems_of example_config = Inr [JInt 20]"
    "log_directory_of example_config = Inr ''/logs''"
    by (simp_all add: colonized_systems_of_def log_directory_of_def example_config_def
          subscript_def)
  have new1: "basename ?f1 \<notin> set (processed_logs (db (initial_state fresh_db)))"
    by (simp add: initial_state_def fresh_db_def)
  have parse1: "parse_log_file example_world ?f1 =
                  Inr [docked_event 128 ''A'' ''Sol'' 10 ''2025-03-01T09:58:00Z'']"
    by (simp add: parse_log_file_def example_defs)
  have file1: "process_events example_world [JInt 20] (initial_state fresh_db)
                 [docked_event 128 ''A'' ''Sol'' 10 ''2025-03-01T09:58:00Z''] = Inr ?s1"
    by (simp add: docked_event_def step_defs initial_state_def docked_at_def)
  have new2: "basename ?f2 \<notin> set (processed_logs (db ?s1'))"
    by (simp add: basename_def fresh_db_def)
  have file2: "process_events example_world [JInt 20] ?s1'
                 (map buy_record ''123456789'') = Inr ?s2"
    by (simp add: buy_record_def market_buy_event_def step_defs
          insert_purchase_def next_rowid_def docked_at_def fresh_db_def nine_gold_def
          open_purchase_def example_world_def basename_def)
  have "process_files example_world [JInt 20] (initial_state fresh_db) [?f1, ?f2] =
          process_files example_world [JInt 20] ?s1' [?f2]"
    using new1 parse1 file1 by (rule process_files_new)
  also have "\<dots> = process_files example_world [JInt 20] ?s2' []"
    using new2 example_parse_nine file2 by (rule process_files_new)
  also have "\<dots> = (None, after_first_run)"
    by (simp add: after_first_run_def basename_def)
  finally have run: "process_logs example_world example_config fresh_db [?f1, ?f2]
       = (None, after_first_run)"
    by (simp add: process_logs_def cfg)
  have len: "length (purchases after_first_run) = 9"
    by (simp add: after_first_run_def nine_gold_def)
  have marked: "basename ''/logs/Journal.02.log'' \<in> set (processed_logs after_first_run)"
    by (simp add: basename_def after_first_run_def)
  from processed_file_is_skipped
         [of "''/logs/Journal.02.log''" after_first_run quiet_world example_config
             "[''/logs/Journal.03.log'']" "[]", THEN conjunct1] marked
  have skip: "process_logs quiet_world example_config after_first_run
       ([''/logs/Journal.03.log''] @ ''/logs/Journal.02.log'' # [])
     = process_logs quiet_world example_config after_first_run ([''/logs/Journal.03.log''] @ [])"
    by blast
  from processed_file_is_skipped
         [where w = example_world and config = example_config and d = fresh_db
            and log_files = "[''/logs/Journal.01.log'', ''/logs/Journal.02.log'']"
            and d' = after_first_run and w' = example_world, THEN conjunct2] run
  have "process_logs example_world example_config after_first_run
       [''/logs/Journal.01.log'', ''/logs/Journal.02.log''] = (None, after_first_run)"
    by blast
  with run len skip show ?thesis by blast
qed

subsection \<open>C5: a Docked event replaces the docking context\<close>

text \<open>
  Claim C5, as amended: a \<^verbatim>\<open>Docked\<close> event that carries a non-null \<^verbatim>\<open>MarketID\<close> together with
  station name, star system, system address and timestamp replaces the docking context with
  those four values, whatever the state before; one whose \<^verbatim>\<open>MarketID\<close> is missing or null is
  discarded and leaves the context as it was.
\<close>

theorem docked_replaces_context:
  assumes "map_of event ''event'' = Some (JStr ''Docked'')"
    and "map_of event ''timestamp'' = Some ts"
    and "map_of event ''StationName'' = Some name"
    and "map_of event ''StarSystem'' = Some sys"
    and "map_of event ''SystemAddress'' = Some addr"
  shows "process_event cs cargo_file choice st (JObj event) =
           (if get event ''MarketID'' = JNull then Inr st
            else Inr (st\<lparr>docked_station :=
                        Some \<lparr>StationName = name, StarSystem = sys, SystemAddress = addr,
                              timestamp = ts\<rparr>\<rparr>))"
  using assms by (simp add: process_event_def on_docked_def subscript_def)

text \<open>
  Docked at A, a \<^verbatim>\<open>Docked\<close> event for B with a market identifier moves the context to B.
\<close>

theorem docked_replaces_context_witness:
  "process_event [] (Inl IOError) 0 at_station_A (docked_event 2 ''B'' ''Col'' 20 ''t2'') =
     Inr (at_station_A\<lparr>docked_station := Some (docked_at ''B'' ''Col'' 20 ''t2'')\<rparr>)"
  using docked_replaces_context
    [of "[(''timestamp'', JStr ''t2''), (''event'', JStr ''Docked''), (''MarketID'', JInt 2),
          (''StationName'', JStr ''B''), (''StarSystem'', JStr ''Col''),
          (''SystemAddress'', JInt 20)]"
        "JStr ''t2''" "JStr ''B''" "JStr ''Col''" "JInt 20" "[]" "Inl IOError" 0 at_station_A]
  by (simp add: docked_event_def docked_at_def get_def)

text \<open>
  Claim C5 as stated fails: docked at A, a \<^verbatim>\<open>Docked\<close> event that carries the four values
  of B and no \<^verbatim>\<open>MarketID\<close> leaves the context at A.
\<close>

theorem docked_without_market_keeps_context:
  "process_event [] (Inl IOError) 0 at_station_A docked_without_market = Inr at_station_A \<and>
   docked_station at_station_A = Some (docked_at ''A'' ''Sol'' 10 ''t1'') \<and>
   docked_at ''A'' ''Sol'' 10 ''t1'' \<noteq> docked_at ''B'' ''Col'' 20 ''t2''"
  by (simp add: step_defs docked_without_market_def at_station_A_def docked_at_def)

subsection \<open>C6: a corrupt line does not abort the file\<close>




subsection \<open>C7: a sale before any docking\<close>

text \<open>
  Claim C7: when no \<^verbatim>\<open>Docked\<close> event has been processed in the run, a \<^verbatim>\<open>MarketSell\<close> event
  changes no purchase. The run starts with no docking, the events before the sale are any
  that are not \<^verbatim>\<open>Docked\<close> events, and the sale leaves the whole state as it is (or raises
  \<^verbatim>\<open>KeyError\<close> at the debug line when it has no timestamp).
\<close>

theorem sell_before_docking_changes_nothing:
  assumes "\<forall>ev\<in>set evs. \<forall>d. ev = JObj d \<longrightarrow> map_of d ''event'' \<noteq> Some (JStr ''Docked'')"
    and "process_events w cs (initial_state d0) evs = Inr st"
    and "map_of event ''event'' = Some (JStr ''MarketSell'')"
  shows "process_event cs cargo_file choice st (JObj event) =
           (if map_of event ''timestamp'' = None then Inl (KeyError ''timestamp'') else Inr st)"
proof -
  from process_events_keep_docking [OF assms(2) assms(1)]
  have "docked_station st = None" by (simp add: initial_state_def)
  with assms(3) show ?thesis
    by (auto simp: process_event_def on_market_sell_def subscript_def)
qed

text \<open>
  The database holds an open purchase of five units of gold. The run processes a purchase
  and a cargo report without any docking, then the sale of five units of gold: the open
  purchase that the sale names is left open.
\<close>

theorem sell_before_docking_changes_nothing_witness:
  "purchases stocked_db = [open_purchase 1 ''gold'' 5 ''A'' ''Sol'' ''t0''] \<and>
   process_events quiet_world [] (initial_state stocked_db)
      [market_buy_event 1 ''gold'' 5 ''t1'', cargo_event ''t2'']
     = Inr \<lparr>docked_station = None, cargo_count = Some 0, db = stocked_db, clock = 2\<rparr> \<and>
   process_event [] (Inl IOError) 0
      \<lparr>docked_station = None, cargo_count = Some 0, db = stocked_db, clock = 2\<rparr>
      (market_sell_event 1 ''gold'' 5 ''t3'')
     = Inr \<lparr>docked_station = None, cargo_count = Some 0, db = stocked_db, clock = 2\<rparr>"
proof -
  have run: "process_events quiet_world [] (initial_state stocked_db)
      [market_buy_event 1 ''gold'' 5 ''t1'', cargo_event ''t2'']
     = Inr \<lparr>docked_station = None, cargo_count = Some 0, db = stocked_db, clock = 2\<rparr>"
    by (simp add: event_defs step_defs cargo_defs quiet_world_def initial_state_def)
  have none: "\<forall>ev\<in>set [market_buy_event 1 ''gold'' 5 ''t1'', cargo_event ''t2''].
          \<forall>d. ev = JObj d \<longrightarrow> map_of d ''event'' \<noteq> Some (JStr ''Docked'')"
    by (auto simp: event_defs cargo_event_def)
  have sell: "map_of [(''timestamp'', JStr ''t3''), (''event'', JStr ''MarketSell''),
                      (''MarketID'', JInt 1), (''Type'', JStr ''gold''), (''Count'', JInt 5)]
                ''event'' = Some (JStr ''MarketSell'')"
    by simp
  have rows: "purchases stocked_db = [open_purchase 1 ''gold'' 5 ''A'' ''Sol'' ''t0'']"
    by (simp add: stocked_db_def)
  from sell_before_docking_changes_nothing [OF none run sell, of "Inl IOError" 0] run rows
  show ?thesis by (simp add: market_sell_event_def)
qed

subsection \<open>C8: the sale is stamped with the current station\<close>

text \<open>
  Claim C8: after \<^verbatim>\<open>Docked(A)\<close>, \<^verbatim>\<open>MarketBuy(X, 5)\<close>, \<^verbatim>\<open>Docked(B)\<close>, \<^verbatim>\<open>MarketSell(X, 5)\<close> the
  purchase that the sale matches is stamped with station B and the timestamp of the sale.
  The run starts on any database, with any choice under LIMIT 1: the ledger is then the old
  rows followed by the purchase made at A, and the one row that changes is an open row of
  item X and count 5, which becomes sold at B at the time of the sale.
\<close>

theorem sale_stamped_with_current_station:
  assumes "X \<noteq> []"
    and "ledger = purchases d @
           [(open_purchase (next_rowid d) X 5 A sysA t2)]"
  shows "\<exists>st' i. process_events w cs (initial_state d)
             [docked_event mA A sysA addrA t1, market_buy_event m2 X 5 t2,
              docked_event mB B sysB addrB t3, market_sell_event m4 X 5 t4] = Inr st'
           \<and> docked_station st' = Some (docked_at B sysB addrB t3)
           \<and> i < length ledger \<and> is_open (ledger ! i)
           \<and> item (ledger ! i) = SText X \<and> count (ledger ! i) = SInt 5
           \<and> purchases (db st') =
               ledger[i := (ledger ! i)\<lparr>sold := True, sold_at := SText B, sold_time := SText t4\<rparr>]"
proof -
  let ?wh = "\<lambda>p. sql_eq (item p) (SText X) \<and> sql_eq (count p) (SInt 5) \<and> \<not> delivered p \<and> \<not> sold p"
  have "length (purchases d) < length ledger" "?wh (ledger ! length (purchases d))"
    using assms(2) by (simp_all add: open_purchase_def sql_eq_def)
  from update_limit_1_hit [of _ ledger ?wh, OF this]
  obtain i where i: "i < length ledger" "?wh (ledger ! i)"
    "update_limit_1 (limit_choice w (Suc (Suc (Suc 0)))) ?wh (set_sold (SText B) (SText t4)) ledger
       = ledger[i := set_sold (SText B) (SText t4) (ledger ! i)]"
    by blast
  have "process_events w cs (initial_state d)
             [docked_event mA A sysA addrA t1, market_buy_event m2 X 5 t2,
              docked_event mB B sysB addrB t3, market_sell_event m4 X 5 t4]
        = Inr \<lparr>docked_station = Some (docked_at B sysB addrB t3), cargo_count = None,
               db = d\<lparr>purchases := update_limit_1 (limit_choice w (Suc (Suc (Suc 0)))) ?wh
                          (set_sold (SText B) (SText t4)) ledger,
                      sqlite_sequence := next_rowid d\<rparr>,
               clock = 4\<rparr>"
    using assms
    by (simp add: event_defs step_defs insert_purchase_def initial_state_def
          open_purchase_def docked_at_def)
  with i show ?thesis
    by (auto simp: is_open_def sql_eq_def set_sold_def)
qed

text \<open>
  On the fresh database the row is the purchase made at A.
\<close>

theorem sale_stamped_with_current_station_witness:
  "process_events quiet_world [] (initial_state fresh_db)
       [docked_event 1 ''A'' ''Sol'' 10 ''t1'', market_buy_event 1 ''gold'' 5 ''t2'',
        docked_event 2 ''B'' ''Col'' 20 ''t3'', market_sell_event 2 ''gold'' 5 ''t4'']
     = Inr \<lparr>docked_station = Some (docked_at ''B'' ''Col'' 20 ''t3''), cargo_count = None,
            db = \<lparr>purchases =
                    [(open_purchase 1 ''gold'' 5 ''A'' ''Sol'' ''t2'')
                       \<lparr>sold := True, sold_at := SText ''B'', sold_time := SText ''t4''\<rparr>],
                  sqlite_sequence = 1, processed_logs = []\<rparr>,
            clock = 4\<rparr>"
proof -
  have "''gold'' \<noteq> []" by simp
  from sale_stamped_with_current_station
         [OF this refl, where w = quiet_world and cs = "[]" and d = fresh_db
            and mA = 1 and A = "''A''" and sysA = "''Sol''" and addrA = 10 and ?t1.0 = "''t1''"
            and ?m2.0 = 1 and ?t2.0 = "''t2''" and mB = 2 and B = "''B''" and sysB = "''Col''"
            and addrB = 20 and ?t3.0 = "''t3''" and ?m4.0 = 2 and ?t4.0 = "''t4''"]
  obtain st' i where
    run: "process_events quiet_world [] (initial_state fresh_db)
       [docked_event 1 ''A'' ''Sol'' 10 ''t1'', market_buy_event 1 ''gold'' 5 ''t2'',
        docked_event 2 ''B'' ''Col'' 20 ''t3'', market_sell_event 2 ''gold'' 5 ''t4''] = Inr st'"
    and dock: "docked_station st' = Some (docked_at ''B'' ''Col'' 20 ''t3'')"
    and i: "i < length (purchases fresh_db @ [open_purchase (next_rowid fresh_db) ''gold'' 5 ''A'' ''Sol'' ''t2''])"
    and ps: "purchases (db st') =
               (purchases fresh_db @ [open_purchase (next_rowid fresh_db) ''gold'' 5 ''A'' ''Sol'' ''t2''])
                 [i := ((purchases fresh_db @ [open_purchase (next_rowid fresh_db) ''gold'' 5 ''A'' ''Sol'' ''t2'']) ! i)
                        \<lparr>sold := True, sold_at := SText ''B'', sold_time := SText ''t4''\<rparr>]"
    by blast
  from i have "i = 0" by (simp add: fresh_db_def)
  with ps have "purchases (db st') =
      [(open_purchase 1 ''gold'' 5 ''A'' ''Sol'' ''t2'')
          \<lparr>sold := True, sold_at := SText ''B'', sold_time := SText ''t4''\<rparr>]"
    by (simp add: fresh_db_def next_rowid_def)
  moreover have "process_events quiet_world [] (initial_state fresh_db)
       [docked_event 1 ''A'' ''Sol'' 10 ''t1'', market_buy_event 1 ''gold'' 5 ''t2'',
        docked_event 2 ''B'' ''Col'' 20 ''t3'', market_sell_event 2 ''gold'' 5 ''t4'']
     = Inr \<lparr>docked_station = Some (docked_at ''B'' ''Col'' 20 ''t3''), cargo_count = None,
            db = \<lparr>purchases =
                    [(open_purchase 1 ''gold'' 5 ''A'' ''Sol'' ''t2'')
                       \<lparr>sold := True, sold_at := SText ''B'', sold_time := SText ''t4''\<rparr>],
                  sqlite_sequence = 1, processed_logs = []\<rparr>,
            clock = 4\<rparr>"
    by (simp add: event_defs step_defs db_defs quiet_world_def initial_state_def fresh_db_def
          open_purchase_def docked_at_def)
  ultimately show ?thesis by simp
qed

subsection \<open>C9: a missing key ends the run\<close>

text \<open>
  Claim C9, as amended: a decoded record that lacks \<^verbatim>\<open>event\<close> or \<^verbatim>\<open>timestamp\<close>, or a \<^verbatim>\<open>Docked\<close>
  record with a \<^verbatim>\<open>MarketID\<close> that lacks \<^verbatim>\<open>StationName\<close>, \<^verbatim>\<open>StarSystem\<close> or \<^verbatim>\<open>SystemAddress\<close>,
  makes the dispatcher raise \<^verbatim>\<open>KeyError\<close> for the first key it misses. The exception ends the
  loop over the file's events and the loop over the files: the run returns it, with the
  database as it was committed before this file, so the file is not recorded and no later
  file is read. Three other failures are recovered where they occur: a line on which
  \<^verbatim>\<open>json.loads\<close> raises \<^verbatim>\<open>JSONDecodeError\<close> is dropped by the decoder, a \<^verbatim>\<open>Docked\<close> record
  without \<^verbatim>\<open>MarketID\<close> is skipped, and a purchase whose INSERT raises \<^verbatim>\<open>sqlite3.Error\<close> is
  skipped; each leaves the state as it is and the run goes on.
\<close>

theorem missing_key_aborts_run:
  assumes "find (\<lambda>k. map_of event k = None) (required_keys event) = Some k"
    and "process_events w cs st before = Inr st'"
    and "parse_log_file w log_file = Inr (before @ JObj event # after)"
    and "basename log_file \<notin> set (processed_logs (db st))"
  shows "process_event cs cargo_file choice st' (JObj event) = Inl (KeyError k) \<and>
         process_events w cs st (before @ JObj event # after) = Inl (KeyError k) \<and>
         process_files w cs st (log_file # log_files) = (Some (KeyError k), db st) \<and>
         (json_loads w line = Inl JSONDecodeError \<longrightarrow>
            decode_lines (json_loads w) (line # rest) = decode_lines (json_loads w) rest) \<and>
         (map_of docked ''event'' = Some (JStr ''Docked'') \<and> map_of docked ''timestamp'' \<noteq> None \<and>
          get docked ''MarketID'' = JNull \<longrightarrow>
            process_event cs cargo_file choice s (JObj docked) = Inr s) \<and>
         (map_of buy ''event'' = Some (JStr ''MarketBuy'') \<and> map_of buy ''timestamp'' = Some ts \<and>
          docked_station s = Some dock \<and>
          bind_params
            [py_or (py_or (get buy ''Type_Localised'') (get buy ''Type'')) (JStr ''Unknown''),
             get_or buy ''Count'' (JInt 0), get_or buy ''BuyPrice'' (JInt 0),
             get_or buy ''TotalCost'' (JInt 0), StationName dock, StarSystem dock, ts]
            = Inl Sqlite3Error \<longrightarrow>
            process_event cs cargo_file choice s (JObj buy) = Inr s)"
proof -
  have 1: "process_event cs cf ch st' (JObj event) = Inl (KeyError k)" for cf ch
    using assms(1) by (rule missing_key_raises)
  then have 2: "process_events w cs st (before @ JObj event # after) = Inl (KeyError k)"
    using assms(2) by (simp add: process_events_append)
  with assms(3,4) have 3: "process_files w cs st (log_file # log_files) = (Some (KeyError k), db st)"
    by simp
  have 4: "json_loads w line = Inl JSONDecodeError \<longrightarrow>
            decode_lines (json_loads w) (line # rest) = decode_lines (json_loads w) rest"
    by simp
  have 5: "map_of docked ''event'' = Some (JStr ''Docked'') \<and> map_of docked ''timestamp'' \<noteq> None \<and>
          get docked ''MarketID'' = JNull \<longrightarrow>
            process_event cs cargo_file choice s (JObj docked) = Inr s"
    by (auto simp: process_event_def on_docked_def subscript_def)
  have 6: "map_of buy ''event'' = Some (JStr ''MarketBuy'') \<and> map_of buy ''timestamp'' = Some ts \<and>
          docked_station s = Some dock \<and>
          bind_params
            [py_or (py_or (get buy ''Type_Localised'') (get buy ''Type'')) (JStr ''Unknown''),
             get_or buy ''Count'' (JInt 0), get_or buy ''BuyPrice'' (JInt 0),
             get_or buy ''TotalCost'' (JInt 0), StationName dock, StarSystem dock, ts]
            = Inl Sqlite3Error \<longrightarrow>
            process_event cs cargo_file choice s (JObj buy) = Inr s"
    by (simp add: process_event_def on_market_buy_def subscript_def del: bind_params.simps)
  from 1 2 3 4 5 6 show ?thesis by blast
qed

text \<open>
  The journal with a purchase, a record without timestamp and another purchase, followed
  by the journal with the nine purchases: the first purchase is lost with the exception.
  The truncated line, the \<^verbatim>\<open>Docked\<close> record without \<^verbatim>\<open>MarketID\<close> and the purchase whose item
  is a list are dropped.
\<close>

theorem missing_key_aborts_run_witness:
  "parse_log_file example_world ''/logs/Journal.03.log'' =
     Inr [buy_record CHR ''1'',
          JObj [(''event'', JStr ''Music''), (''MusicTrack'', JStr ''Exploration'')],
          buy_record CHR ''2''] \<and>
   process_events example_world [] at_station_A [buy_record CHR ''1'']
     = Inr (at_station_A
              \<lparr>db := fresh_db\<lparr>purchases :=
                         [open_purchase 1 ''gold'' 5 ''A'' ''Sol'' ''2025-03-01T10:01:00Z''],
                       sqlite_sequence := 1\<rparr>,
               clock := 2\<rparr>) \<and>
   process_files example_world [] at_station_A
       [''/logs/Journal.03.log'', ''/logs/Journal.02.log'']
     = (Some (KeyError ''timestamp''), fresh_db) \<and>
   json_loads example_world corrupt_line = Inl JSONDecodeError \<and>
   decode_lines (json_loads example_world) [corrupt_line, buy_line CHR ''1'']
     = decode_lines (json_loads example_world) [buy_line CHR ''1''] \<and>
   process_event [] (Inl IOError) 0 at_station_A docked_bare = Inr at_station_A \<and>
   bind_params [JArr [JStr ''gold''], JInt 5, JInt 0, JInt 0, JStr ''A'', JStr ''Sol'', JStr ''t3'']
     = Inl Sqlite3Error \<and>
   process_event [] (Inl IOError) 0 at_station_A unbindable_buy = Inr at_station_A"
proof -
  let ?music = "[(''event'', JStr ''Music''), (''MusicTrack'', JStr ''Exploration'')]"
  let ?docked = "[(''timestamp'', JStr ''t2''), (''event'', JStr ''Docked'')]"
  let ?buy = "[(''timestamp'', JStr ''t3''), (''event'', JStr ''MarketBuy''),
               (''MarketID'', JInt 128), (''Type'', JArr [JStr ''gold'']), (''Count'', JInt 5)]"
  let ?dock = "docked_at ''A'' ''Sol'' 10 ''t1''"
  have parse: "parse_log_file example_world ''/logs/Journal.03.log'' =
     Inr ([buy_record CHR ''1''] @ JObj ?music # [buy_record CHR ''2''])"
    by (simp add: parse_log_file_def example_defs)
  have missing: "find (\<lambda>k. map_of ?music k = None) (required_keys ?music) = Some ''timestamp''"
    by (simp add: required_keys_def)
  have before: "process_events example_world [] at_station_A [buy_record CHR ''1'']
     = Inr (at_station_A
              \<lparr>db := fresh_db\<lparr>purchases :=
                         [open_purchase 1 ''gold'' 5 ''A'' ''Sol'' ''2025-03-01T10:01:00Z''],
                       sqlite_sequence := 1\<rparr>,
               clock := 2\<rparr>)"
    by (simp add: buy_record_def market_buy_event_def step_defs insert_purchase_def
          next_rowid_def at_station_A_def docked_at_def fresh_db_def open_purchase_def
          example_world_def)
  have unmarked: "basename ''/logs/Journal.03.log'' \<notin> set (processed_logs (db at_station_A))"
    by (simp add: at_station_A_def fresh_db_def)
  have corrupt: "json_loads example_world corrupt_line = Inl JSONDecodeError"
    by (simp add: example_defs)
  have docked: "map_of ?docked ''event'' = Some (JStr ''Docked'') \<and>
      map_of ?docked ''timestamp'' \<noteq> None \<and> get ?docked ''MarketID'' = JNull"
    by (simp add: get_def)
  have bind: "bind_params [JArr [JStr ''gold''], JInt 5, JInt 0, JInt 0, JStr ''A'', JStr ''Sol'',
                           JStr ''t3''] = Inl Sqlite3Error"
    by simp
  have buy: "map_of ?buy ''event'' = Some (JStr ''MarketBuy'') \<and>
      map_of ?buy ''timestamp'' = Some (JStr ''t3'') \<and>
      docked_station at_station_A = Some ?dock \<and>
      bind_params
        [py_or (py_or (get ?buy ''Type_Localised'') (get ?buy ''Type'')) (JStr ''Unknown''),
         get_or ?buy ''Count'' (JInt 0), get_or ?buy ''BuyPrice'' (JInt 0),
         get_or ?buy ''TotalCost'' (JInt 0), StationName ?dock, StarSystem ?dock, JStr ''t3'']
        = Inl Sqlite3Error"
    by (simp add: get_def get_or_def py_or_def at_station_A_def docked_at_def)
  note inst = missing_key_aborts_run [OF missing before parse unmarked,
      where cargo_file = "Inl IOError" and choice = 0
        and log_files = "[''/logs/Journal.02.log'']"
        and line = corrupt_line and rest = "[buy_line CHR ''1'']"
        and docked = "?docked" and s = at_station_A
        and buy = "?buy" and ts = "JStr ''t3''" and dock = "?dock"]
  from inst have "process_files example_world [] at_station_A
       [''/logs/Journal.03.log'', ''/logs/Journal.02.log'']
     = (Some (KeyError ''timestamp''), db at_station_A)"
    by blast
  then have files: "process_files example_world [] at_station_A
       [''/logs/Journal.03.log'', ''/logs/Journal.02.log'']
     = (Some (KeyError ''timestamp''), fresh_db)"
    by (simp add: at_station_A_def)
  from inst corrupt have lines: "decode_lines (json_loads example_world) [corrupt_line, buy_line CHR ''1'']
     = decode_lines (json_loads example_world) [buy_line CHR ''1'']"
    by blast
  from inst docked have d: "process_event [] (Inl IOError) 0 at_station_A docked_bare = Inr at_station_A"
    unfolding docked_bare_def by blast
  from inst buy have b: "process_event [] (Inl IOError) 0 at_station_A unbindable_buy = Inr at_station_A"
    unfolding unbindable_buy_def by blast
  from parse before files corrupt lines d bind b show ?thesis by simp
qed

text \<open>
  Claim C9 as stated fails in its last clause: failures other than those of the decoder are
  recovered where they occur. A \<^verbatim>\<open>Docked\<close> record without \<^verbatim>\<open>MarketID\<close> and a purchase whose INSERT
  raises \<^verbatim>\<open>sqlite3.Error\<close> (its item is a list, which cannot be bound) are each dropped, and the
  run goes on to insert the purchase that follows them.
\<close>

theorem other_failures_recovered:
  "process_events example_world [] at_station_A
       [docked_bare, unbindable_buy, buy_record CHR ''1'']
     = Inr (at_station_A
              \<lparr>db := fresh_db\<lparr>purchases :=
                         [open_purchase 1 ''gold'' 5 ''A'' ''Sol'' ''2025-03-01T10:01:00Z''],
                       sqlite_sequence := 1\<rparr>,
               clock := 4\<rparr>)"
  by (simp add: docked_bare_def unbindable_buy_def buy_record_def market_buy_event_def
        step_defs insert_purchase_def next_rowid_def at_station_A_def docked_at_def
        fresh_db_def open_purchase_def example_world_def)

subsection \<open>C10: sales match the raw type only\<close>

text \<open>
  Claim C10: the \<^verbatim>\<open>MarketSell\<close> branch takes the item name from \<^verbatim>\<open>Type\<close> alone
  (\<^verbatim>\<open>Unknown\<close> when the key is absent), while the \<^verbatim>\<open>MarketBuy\<close> branch prefers
  \<^verbatim>\<open>Type_Localised\<close>. So a purchase inserted under a localised name that differs from its
  raw type is inserted open under the localised name, and whatever happens afterwards in
  the run, a \<^verbatim>\<open>MarketSell\<close> event that resolves to the raw type leaves that row as it is,
  whatever its own \<^verbatim>\<open>Type_Localised\<close>. Names are strings.
\<close>

theorem localised_purchase_never_sold:
  assumes "map_of buy ''event'' = Some (JStr ''MarketBuy'')"
    and "map_of buy ''Type_Localised'' = Some (JStr localised)"
    and "localised \<noteq> []"
    and "map_of buy ''Type'' = Some (JStr raw)"
    and "localised \<noteq> raw"
    and "process_event cs cargo_file choice st (JObj buy) = Inr st1"
    and "purchases (db st1) \<noteq> purchases (db st)"
    and "process_events w cs (st1\<lparr>clock := Suc (clock st1)\<rparr>) later = Inr st2"
    and "map_of sell ''event'' = Some (JStr ''MarketSell'')"
    and "get_or sell ''Type'' (JStr ''Unknown'') = JStr raw"
    and "process_event cs cargo_file' choice' st2 (JObj sell) = Inr st3"
  shows "purchases (db st1) =
           purchases (db st) @ [purchases (db st1) ! length (purchases (db st))] \<and>
         item (purchases (db st1) ! length (purchases (db st))) = SText localised \<and>
         is_open (purchases (db st1) ! length (purchases (db st))) \<and>
         purchases (db st3) ! length (purchases (db st)) =
           purchases (db st2) ! length (purchases (db st))"
proof -
  let ?n = "length (purchases (db st))"
  have ts: "map_of buy ''timestamp'' \<noteq> None"
    using assms(1,6) by (auto simp: process_event_def subscript_def split: option.splits)
  from assms(1,6) ts have buy: "on_market_buy buy st = Inr st1"
    by (auto simp: process_event_def subscript_def)
  let ?name = "py_or (py_or (get buy ''Type_Localised'') (get buy ''Type'')) (JStr ''Unknown'')"
  have name: "?name = JStr localised"
    using assms(2,3) by (simp add: py_or_def get_def)
  from on_market_buy_cases [OF buy] assms(7) obtain dock :: docking and t row where
    row: "bind_params [?name, get_or buy ''Count'' (JInt 0), get_or buy ''BuyPrice'' (JInt 0),
                       get_or buy ''TotalCost'' (JInt 0), StationName dock, StarSystem dock, t]
            = Inr row"
    and st1: "st1 = st\<lparr>db := insert_purchase_row row (db st)\<rparr>"
    by auto
  from bind_params_7 [OF row] name obtain c bp tc at sys tm where
    "row = [SText localised, c, bp, tc, at, sys, tm]"
    by auto
  with st1 have ins: "purchases (db st1) = purchases (db st) @ [purchases (db st1) ! ?n]"
    "item (purchases (db st1) ! ?n) = SText localised"
    "is_open (purchases (db st1) ! ?n)"
    by (simp_all add: insert_purchase_def is_open_def)
  from ins(1) have len1: "?n < length (purchases (db st1))"
    by (metis length_append_singleton lessI)
  from process_events_db [OF assms(8)] have k: "kept (purchases (db st1)) (purchases (db st2))"
    by (simp add: db_step_def)
  with len1 have len2: "?n < length (purchases (db st2))"
    and "item (purchases (db st2) ! ?n) = item (purchases (db st1) ! ?n)"
    by (auto simp: kept_def)
  with ins(2) have item2: "item (purchases (db st2) ! ?n) = SText localised" by simp
  have "purchases (db st3) ! ?n = purchases (db st2) ! ?n"
  proof -
    from assms(9,11) have "map_of sell ''timestamp'' \<noteq> None"
      by (auto simp: process_event_def subscript_def split: option.splits)
    with assms(9,11) have "on_market_sell choice' sell st2 = Inr st3"
      by (auto simp: process_event_def subscript_def)
    moreover note len2
    moreover have "bind_param (get_or sell ''Type'' (JStr ''Unknown''))
                     \<noteq> Inr (item (purchases (db st2) ! ?n))"
      using assms(5,10) item2 by simp
    ultimately show ?thesis by (rule on_market_sell_other_item)
  qed
  with ins show ?thesis by simp
qed

text \<open>
  Gold bought as \<^verbatim>\<open>Gold\<close> (raw type \<^verbatim>\<open>gold\<close>) and sold as \<^verbatim>\<open>gold\<close>: the row stays open.
\<close>

theorem localised_purchase_never_sold_witness:
  "process_event [] (Inl IOError) 0 at_station_A (JObj localised_buy) = Inr holding_Gold \<and>
   process_events quiet_world [] (holding_Gold\<lparr>clock := Suc (clock holding_Gold)\<rparr>) []
     = Inr (holding_Gold\<lparr>clock := 2\<rparr>) \<and>
   process_event [] (Inl IOError) 0 (holding_Gold\<lparr>clock := 2\<rparr>) (JObj localised_sell)
     = Inr (holding_Gold\<lparr>clock := 2\<rparr>) \<and>
   item (purchases (db holding_Gold) ! 0) = SText ''Gold'' \<and>
   is_open (purchases (db (holding_Gold\<lparr>clock := 2\<rparr>)) ! 0)"
proof -
  have buy: "process_event [] (Inl IOError) 0 at_station_A (JObj localised_buy) = Inr holding_Gold"
    by (simp add: localised_buy_def holding_Gold_def step_defs insert_purchase_def
          next_rowid_def at_station_A_def docked_at_def fresh_db_def open_purchase_def)
  have later: "process_events quiet_world [] (holding_Gold\<lparr>clock := Suc (clock holding_Gold)\<rparr>) []
     = Inr (holding_Gold\<lparr>clock := 2\<rparr>)"
    by (simp add: holding_Gold_def at_station_A_def)
  have sell: "process_event [] (Inl IOError) 0 (holding_Gold\<lparr>clock := 2\<rparr>) (JObj localised_sell)
     = Inr (holding_Gold\<lparr>clock := 2\<rparr>)"
    by (simp add: localised_sell_def holding_Gold_def step_defs db_defs
          at_station_A_def docked_at_def fresh_db_def open_purchase_def)
  have hyps: "map_of localised_buy ''event'' = Some (JStr ''MarketBuy'')"
    "map_of localised_buy ''Type_Localised'' = Some (JStr ''Gold'')"
    "''Gold'' \<noteq> []"
    "map_of localised_buy ''Type'' = Some (JStr ''gold'')"
    "''Gold'' \<noteq> ''gold''"
    by (simp_all add: localised_buy_def)
  have changed: "purchases (db holding_Gold) \<noteq> purchases (db at_station_A)"
    by (simp add: holding_Gold_def at_station_A_def fresh_db_def)
  have hyps': "map_of localised_sell ''event'' = Some (JStr ''MarketSell'')"
    "get_or localised_sell ''Type'' (JStr ''Unknown'') = JStr ''gold''"
    by (simp_all add: localised_sell_def get_or_def)
  have len: "length (purchases (db at_station_A)) = 0"
    by (simp add: at_station_A_def fresh_db_def)
  from localised_purchase_never_sold [OF hyps buy changed later hyps' sell] len
  have "item (purchases (db holding_Gold) ! 0) = SText ''Gold''"
    "is_open (purchases (db holding_Gold) ! 0)"
    by simp_all
  with buy later sell show ?thesis by simp
qed

end
